theory Spec2Isabelle
  imports Main "HOL-Library.Sublist" "HOL-Library.Char_ord" "HOL-Library.List_Lexorder"
begin

section \<open>ToggleTalk server: strings\<close>

text \<open>
  A text is a \<^typ>\<open>string\<close>: the bytes of its UTF-8 encoding, so that a character outside
  ASCII is a lead byte followed by continuation bytes. \<open>contains\<close> is \<^verbatim>\<open>sub in text\<close> and
  \<open>startswith\<close> is \<^verbatim>\<open>text.startswith(p)\<close>; every \<open>sub\<close> and \<open>p\<close> the server uses is ASCII,
  and an ASCII byte of a UTF-8 text is a character of its own, so the bytes decide both as
  the characters do.
\<close>

fun contains :: "string \<Rightarrow> string \<Rightarrow> bool" where
  "contains sub [] = (sub = [])"
| "contains sub (c # cs) = (prefix sub (c # cs) \<or> contains sub cs)"

definition startswith :: "string \<Rightarrow> string \<Rightarrow> bool" where
  "startswith text p = prefix p text"

text \<open>
  The length of a text in characters and its first \<open>n\<close> characters (\<^verbatim>\<open>len(text)\<close>,
  \<^verbatim>\<open>text[:n]\<close>): a continuation byte belongs to the character before it.
\<close>

definition is_continuation :: "char \<Rightarrow> bool" where
  "is_continuation c = (128 \<le> (of_char c :: nat) \<and> (of_char c :: nat) < 192)"

definition py_len :: "string \<Rightarrow> nat" where
  "py_len text = length (filter (\<lambda>c. \<not> is_continuation c) text)"

fun py_take :: "nat \<Rightarrow> string \<Rightarrow> string" where
  "py_take n [] = []"
| "py_take n (c # cs) =
     (if is_continuation c then c # py_take n cs
      else (case n of 0 \<Rightarrow> [] | Suc m \<Rightarrow> c # py_take m cs))"

subsection \<open>The library on ASCII text\<close>

text \<open>
  \<^verbatim>\<open>str.lower\<close>, \<^verbatim>\<open>str.split\<close>, the search of the schedule pattern and \<^verbatim>\<open>int\<close> belong to
  the Python library and follow the Unicode character database. The server model takes
  them as parameters (the record \<open>platform\<close> below). \<open>lower\<close>, \<open>split\<close> and, further down,
  \<open>re_search_time\<close> and \<open>int_of_digits\<close> are these functions on texts of ASCII
  characters; they are used only to run the model on such texts.
\<close>

definition lower_char :: "char \<Rightarrow> char" where
  "lower_char c =
     (case map_of (zip ''ABCDEFGHIJKLMNOPQRSTUVWXYZ'' ''abcdefghijklmnopqrstuvwxyz'') c of
        Some l \<Rightarrow> l
      | None \<Rightarrow> c)"

definition lower :: "string \<Rightarrow> string" where
  "lower text = map lower_char text"

definition isspace :: "char \<Rightarrow> bool" where
  "isspace c = (c \<in> set [CHR '' '', CHR 0x09, CHR 0x0A, CHR 0x0B, CHR 0x0C, CHR 0x0D,
                          CHR 0x1C, CHR 0x1D, CHR 0x1E, CHR 0x1F])"

definition isdigit :: "char \<Rightarrow> bool" where
  "isdigit c = (c \<in> set ''0123456789'')"

fun split_from :: "string \<Rightarrow> string \<Rightarrow> string list" where
  "split_from cur [] = (if cur = [] then [] else [cur])"
| "split_from cur (c # cs) =
     (if isspace c then (if cur = [] then split_from [] cs else cur # split_from [] cs)
      else split_from (cur @ [c]) cs)"

definition split :: "string \<Rightarrow> string list" where
  "split text = split_from [] text"

text \<open>Decimal rendering of a natural number (\<^verbatim>\<open>str(n)\<close>) and its two-column forms.\<close>

definition digit_char :: "nat \<Rightarrow> char" where
  "digit_char d = ''0123456789'' ! (d mod 10)"

fun str_nat :: "nat \<Rightarrow> string" where
  "str_nat n = (if n < 10 then [digit_char n] else str_nat (n div 10) @ [digit_char (n mod 10)])"

declare str_nat.simps [simp del]

definition pad2_zero :: "nat \<Rightarrow> string" where
  \<comment> \<open>\<^verbatim>\<open>%H\<close>, \<^verbatim>\<open>%M\<close>, \<^verbatim>\<open>%S\<close>: two digits, zero padded\<close>
  "pad2_zero n = (if n < 10 then CHR ''0'' # str_nat n else str_nat n)"

definition pad2_space :: "nat \<Rightarrow> string" where
  \<comment> \<open>the format \<^verbatim>\<open>{n:2d}\<close>: width two, space padded\<close>
  "pad2_space n = (if n < 10 then CHR '' '' # str_nat n else str_nat n)"

section \<open>Data model\<close>

datatype device = light | ac | washing_machine

datatype onoff = On | Off

datatype error = OverflowError | ValueError

record task =
  task_device :: device
  task_action :: onoff
  task_scheduled_time :: nat
  task_user_name :: string

record notification =
  n_text :: string
  n_timestamp :: string
  n_id :: nat

record log_entry =
  e_timestamp :: string
  e_event_type :: string
  e_message :: string
  e_user_name :: "string option"
  e_user_id :: "int option"

text \<open>A line of \<^verbatim>\<open>events.log\<close>: an entry, or text that \<^verbatim>\<open>json.loads\<close> rejects.\<close>

datatype log_line = Entry log_entry | Garbage

text \<open>A JSON file on disk: absent, present with undecodable text, or holding a value.\<close>

datatype 'a json_file = Absent | Undecodable | Decoded 'a

text \<open>The file operations the server performs, recorded in the order they are made.\<close>

datatype io_kind = OpenRead | OpenWrite | OpenAppend | Copy

text \<open>
  Library behaviour the model takes as parameters:
  \<^verbatim>\<open>int(hashlib.md5(s.encode()).hexdigest()[:8], 16)\<close>, \<^verbatim>\<open>datetime.isoformat\<close>, the
  timestamp rendering of \<^verbatim>\<open>get_log_details\<close> (\<^verbatim>\<open>fromisoformat\<close> then \<^verbatim>\<open>strftime\<close>, the
  string itself when that fails), the text \<^verbatim>\<open>str(e)\<close> of a caught exception,
  \<^verbatim>\<open>str.lower\<close>, \<^verbatim>\<open>str.split\<close> without arguments,
  \<^verbatim>\<open>re.search(r'in\s+(\d+)\s+(second|seconds|minute|minutes|hour|hours)', text)\<close> with its two
  groups as result, and \<^verbatim>\<open>int\<close> on the first group, which raises \<^verbatim>\<open>ValueError\<close> on a digit
  run beyond the interpreter's limit.
\<close>

record platform =
  md5_id :: "string \<Rightarrow> nat"
  isoformat :: "nat \<Rightarrow> string"
  log_time :: "string \<Rightarrow> string"
  exc_text :: string
  py_lower :: "string \<Rightarrow> string"
  py_split :: "string \<Rightarrow> string list"
  re_search :: "string \<Rightarrow> (string \<times> string) option"
  py_int :: "string \<Rightarrow> error + nat"

text \<open>
  The server object together with its environment. \<open>clock\<close> is the local time in
  milliseconds since \<^verbatim>\<open>datetime.min\<close>; only \<^verbatim>\<open>time.sleep\<close> advances it.
  \<open>gpio_raises k\<close> says whether the \<open>k\<close>-th call into the GPIO library raises and
  \<open>ldr_high k\<close> what \<^verbatim>\<open>GPIO.input\<close> reads when it is the \<open>k\<close>-th call; \<open>io_raises k\<close>
  says whether the \<open>k\<close>-th file operation raises. \<open>gpio_calls\<close> counts the GPIO calls
  made and \<open>io_trace\<close> lists the file operations made. \<open>events_log\<close> is the content of
  \<^verbatim>\<open>events.log\<close>, \<open>None\<close> while the file does not exist; \<open>backups\<close> lists the backup
  files created. The chat identifiers are a set, in memory as in the code and also on disk:
  the file is a list written from the set and read back into a set.
\<close>

record server =
  clock :: nat
  gpio_available :: bool
  gpio_raises :: "nat \<Rightarrow> bool"
  ldr_high :: "nat \<Rightarrow> bool"
  gpio_calls :: nat
  io_raises :: "nat \<Rightarrow> bool"
  io_trace :: "(io_kind \<times> string) list"
  home_devices :: "device \<Rightarrow> onoff"
  security_system_active :: bool
  chat_ids :: "int set"
  scheduled_tasks :: "task list"
  pending_notifications :: "notification list"
  notification_queue :: "string list"
  events_log :: "log_line list option"
  scheduled_tasks_file :: "task list json_file"
  pending_notifications_file :: "notification list json_file"
  chat_ids_file :: "int set json_file"
  backups :: "string list"

definition CHAT_IDS_FILE :: string where
  "CHAT_IDS_FILE = ''chat_ids.json''"

definition SCHEDULED_TASKS_FILE :: string where
  "SCHEDULED_TASKS_FILE = ''scheduled_tasks.json''"

definition PENDING_NOTIFICATIONS_FILE :: string where
  "PENDING_NOTIFICATIONS_FILE = ''pending_notifications.json''"

definition EVENTS_LOG_FILE :: string where
  "EVENTS_LOG_FILE = ''events.log''"

definition sleep :: "nat \<Rightarrow> server \<Rightarrow> server" where
  "sleep ms s = s\<lparr>clock := clock s + ms\<rparr>"

definition io_fails :: "server \<Rightarrow> bool" where
  \<comment> \<open>whether the next file operation raises\<close>
  "io_fails s = io_raises s (length (io_trace s))"

definition io :: "io_kind \<Rightarrow> string \<Rightarrow> server \<Rightarrow> server" where
  "io k name s = s\<lparr>io_trace := io_trace s @ [(k, name)]\<rparr>"

definition gpio_fails :: "server \<Rightarrow> bool" where
  \<comment> \<open>whether the next GPIO call raises\<close>
  "gpio_fails s = gpio_raises s (gpio_calls s)"

definition gpio :: "server \<Rightarrow> server" where
  "gpio s = s\<lparr>gpio_calls := Suc (gpio_calls s)\<rparr>"

definition strftime_hms :: "nat \<Rightarrow> string" where
  \<comment> \<open>\<^verbatim>\<open>strftime("%H:%M:%S")\<close>\<close>
  "strftime_hms t =
     pad2_zero (t div 3600000 mod 24) @ '':'' @ pad2_zero (t div 60000 mod 60) @ '':'' @
     pad2_zero (t div 1000 mod 60)"

definition time_time :: "server \<Rightarrow> nat" where
  \<comment> \<open>\<^verbatim>\<open>int(time.time())\<close>, the local zone taken as UTC: 1970-01-01 is day 719162\<close>
  "time_time s = (clock s - 719162 * 86400000) div 1000"

text \<open>
  \<^verbatim>\<open>datetime.now() + timedelta(...)\<close> raises \<^verbatim>\<open>OverflowError\<close> when the span reaches
  \<open>10\<^sup>9\<close> days or the sum passes \<^verbatim>\<open>datetime.max\<close>, the last instant of year 9999.
\<close>

definition timedelta_limit :: nat where
  "timedelta_limit = 1000000000 * 86400000"

definition datetime_limit :: nat where
  "datetime_limit = 3652059 * 86400000"

definition datetime_add :: "nat \<Rightarrow> nat \<Rightarrow> error + nat" where
  "datetime_add now ms =
     (if ms \<ge> timedelta_limit then Inl OverflowError
      else if now + ms \<ge> datetime_limit then Inl OverflowError
      else Inr (now + ms))"

section \<open>Persistence: saving\<close>

text \<open>
  The three \<^verbatim>\<open>save_*\<close> methods share one loop: up to three attempts, one second of sleep
  after a failed attempt that is not the last, nothing raised to the caller. A failed
  write is taken to leave the file as it was.
\<close>

fun retry_write :: "nat \<Rightarrow> string \<Rightarrow> (server \<Rightarrow> server) \<Rightarrow> server \<Rightarrow> server" where
  "retry_write 0 name wr s = s"
| "retry_write (Suc n) name wr s =
     (if io_fails s
      then (if n = 0 then io OpenWrite name s
            else retry_write n name wr (sleep 1000 (io OpenWrite name s)))
      else wr (io OpenWrite name s))"

definition save_pending_notifications :: "server \<Rightarrow> server" where
  "save_pending_notifications s =
     retry_write 3 PENDING_NOTIFICATIONS_FILE
       (\<lambda>s'. s'\<lparr>pending_notifications_file := Decoded (pending_notifications s')\<rparr>) s"

definition save_scheduled_tasks :: "server \<Rightarrow> server" where
  "save_scheduled_tasks s =
     retry_write 3 SCHEDULED_TASKS_FILE
       (\<lambda>s'. s'\<lparr>scheduled_tasks_file := Decoded (scheduled_tasks s')\<rparr>) s"

definition save_chat_ids :: "server \<Rightarrow> server" where
  "save_chat_ids s =
     retry_write 3 CHAT_IDS_FILE (\<lambda>s'. s'\<lparr>chat_ids_file := Decoded (chat_ids s')\<rparr>) s"

section \<open>Persistence: loading\<close>

definition backup_name :: "string \<Rightarrow> server \<Rightarrow> string" where
  "backup_name name s = name @ ''.backup.'' @ str_nat (time_time s)"

definition backup :: "string \<Rightarrow> server \<Rightarrow> server" where
  \<comment> \<open>\<^verbatim>\<open>shutil.copy2\<close> under its own \<^verbatim>\<open>try\<close>: a failure is logged only\<close>
  "backup name s =
     (if io_fails s then io Copy name s
      else (io Copy name s)\<lparr>backups := backups s @ [backup_name name s]\<rparr>)"

text \<open>
  The loop of the \<^verbatim>\<open>load_*\<close> methods, entered when the file exists. An attempt opens and
  decodes the file. \<^verbatim>\<open>JSONDecodeError\<close>: on the first two attempts back the file up and
  sleep a second, on the third give up. Any other exception: sleep a second, or give up
  on the third attempt. \<open>None\<close> is giving up; each method returns its empty default then.
\<close>

fun load_attempts :: "nat \<Rightarrow> string \<Rightarrow> 'a json_file \<Rightarrow> server \<Rightarrow> server \<times> 'a option" where
  "load_attempts 0 name f s = (s, None)"
| "load_attempts (Suc n) name f s =
     (if io_fails s \<or> f = Absent
      then (if n = 0 then (io OpenRead name s, None)
            else load_attempts n name f (sleep 1000 (io OpenRead name s)))
      else (case f of
              Decoded v \<Rightarrow> (io OpenRead name s, Some v)
            | _ \<Rightarrow>
               (if n = 0 then (io OpenRead name s, None)
                else load_attempts n name f (sleep 1000 (backup name (io OpenRead name s))))))"

definition load_scheduled_tasks :: "server \<Rightarrow> server \<times> task list" where
  "load_scheduled_tasks s =
     (if scheduled_tasks_file s = Absent then (s, [])
      else (case load_attempts 3 SCHEDULED_TASKS_FILE (scheduled_tasks_file s) s of
              (s', Some tasks) \<Rightarrow> (s', tasks)
            | (s', None) \<Rightarrow> (s', [])))"

definition load_pending_notifications :: "server \<Rightarrow> server \<times> notification list" where
  "load_pending_notifications s =
     (if pending_notifications_file s = Absent then (s, [])
      else (case load_attempts 3 PENDING_NOTIFICATIONS_FILE (pending_notifications_file s) s of
              (s', Some data) \<Rightarrow> (s', data)
            | (s', None) \<Rightarrow> (s', [])))"

definition load_chat_ids :: "server \<Rightarrow> server \<times> int set" where
  "load_chat_ids s =
     (if chat_ids_file s = Absent then (s, {})
      else (case load_attempts 3 CHAT_IDS_FILE (chat_ids_file s) s of
              (s', Some data) \<Rightarrow> (s', data)
            | (s', None) \<Rightarrow> (s', {})))"

section \<open>Notification and event bus\<close>

definition new_notification :: "platform \<Rightarrow> string \<Rightarrow> string \<Rightarrow> notification" where
  "new_notification p notification_text ts =
     \<lparr>n_text = notification_text, n_timestamp = ts, n_id = md5_id p (notification_text @ ts)\<rparr>"

definition add_pending_notification ::
    "platform \<Rightarrow> string \<Rightarrow> string option \<Rightarrow> server \<Rightarrow> server" where
  "add_pending_notification p notification_text timestamp s =
     (let ts = (case timestamp of None \<Rightarrow> isoformat p (clock s) | Some t \<Rightarrow> t);
          appended = pending_notifications s @ [new_notification p notification_text ts];
          kept = (if length appended > 100
                  then drop (length appended - 100) appended else appended)
      in save_pending_notifications (s\<lparr>pending_notifications := kept\<rparr>))"

definition get_pending_notifications :: "server \<Rightarrow> server \<times> notification list" where
  "get_pending_notifications s =
     (case load_pending_notifications s of
        (s', loaded) \<Rightarrow> (s'\<lparr>pending_notifications := loaded\<rparr>, loaded))"

definition log_event ::
    "platform \<Rightarrow> string \<Rightarrow> string \<Rightarrow> string option \<Rightarrow> int option \<Rightarrow> server \<Rightarrow> server" where
  "log_event p event_type message user_name user_id s =
     (let log_entry = \<lparr>e_timestamp = isoformat p (clock s), e_event_type = event_type,
                        e_message = message, e_user_name = user_name, e_user_id = user_id\<rparr>
      in if io_fails s then io OpenAppend EVENTS_LOG_FILE s
         else (io OpenAppend EVENTS_LOG_FILE s)
                \<lparr>events_log := Some ((case events_log s of None \<Rightarrow> [] | Some ls \<Rightarrow> ls)
                                        @ [Entry log_entry])\<rparr>)"

section \<open>Actuation port\<close>

text \<open>
  The retry loop of \<open>control_gpio_device\<close>: up to three calls of \<^verbatim>\<open>GPIO.output\<close>, half a
  second of sleep after a failed call that is not the last. The level written to the pin
  is not recorded.
\<close>

fun gpio_attempts :: "nat \<Rightarrow> server \<Rightarrow> server \<times> bool" where
  "gpio_attempts 0 s = (s, False)"
| "gpio_attempts (Suc n) s =
     (if gpio_fails s
      then (if n = 0 then (gpio s, False) else gpio_attempts n (sleep 500 (gpio s)))
      else (gpio s, True))"

definition control_gpio_device :: "device \<Rightarrow> onoff \<Rightarrow> server \<Rightarrow> server \<times> bool" where
  "control_gpio_device device_name action s =
     (if \<not> gpio_available s then (s, True) else gpio_attempts 3 s)"

text \<open>A run of GPIO calls inside one \<^verbatim>\<open>try\<close>: it stops at the first call that raises.\<close>

fun gpio_calls_seq :: "nat \<Rightarrow> server \<Rightarrow> server \<times> bool" where
  "gpio_calls_seq 0 s = (s, True)"
| "gpio_calls_seq (Suc n) s = (if gpio_fails s then (gpio s, False) else gpio_calls_seq n (gpio s))"

section \<open>Command interpreter\<close>

definition get_device_user_name :: "device \<Rightarrow> string" where
  "get_device_user_name device_name =
     (case device_name of light \<Rightarrow> ''Light'' | ac \<Rightarrow> ''Air Conditioner''
      | washing_machine \<Rightarrow> ''Washing Machine'')"

definition status_str :: "onoff \<Rightarrow> string" where
  "status_str a = (case a of On \<Rightarrow> ''on'' | Off \<Rightarrow> ''off'')"

definition action_display :: "onoff \<Rightarrow> string" where
  "action_display a = (case a of On \<Rightarrow> ''ON'' | Off \<Rightarrow> ''OFF'')"

definition set_status :: "device \<Rightarrow> onoff \<Rightarrow> server \<Rightarrow> server" where
  "set_status d a s = s\<lparr>home_devices := (home_devices s)(d := a)\<rparr>"

text \<open>The emoji of the replies, as UTF-8 bytes, and the apostrophe.\<close>

definition check_mark :: string where
  "check_mark = [CHR 0xE2, CHR 0x9C, CHR 0x85]"

definition warning_sign :: string where
  "warning_sign = [CHR 0xE2, CHR 0x9A, CHR 0xA0, CHR 0xEF, CHR 0xB8, CHR 0x8F]"

definition basket :: string where
  "basket = [CHR 0xF0, CHR 0x9F, CHR 0xA7, CHR 0xBA]"

definition snowflake :: string where
  "snowflake = [CHR 0xE2, CHR 0x9D, CHR 0x84, CHR 0xEF, CHR 0xB8, CHR 0x8F]"

definition bulb :: string where
  "bulb = [CHR 0xF0, CHR 0x9F, CHR 0x92, CHR 0xA1]"

definition shield :: string where
  "shield = [CHR 0xF0, CHR 0x9F, CHR 0x9B, CHR 0xA1, CHR 0xEF, CHR 0xB8, CHR 0x8F]"

definition alarm_clock :: string where
  "alarm_clock = [CHR 0xE2, CHR 0x8F, CHR 0xB0]"

definition bell :: string where
  "bell = [CHR 0xF0, CHR 0x9F, CHR 0x94, CHR 0x94]"

definition house :: string where
  "house = [CHR 0xF0, CHR 0x9F, CHR 0x8F, CHR 0xA0]"

definition bullet :: string where
  "bullet = [CHR 0xE2, CHR 0x80, CHR 0xA2]"

definition siren :: string where
  "siren = [CHR 0xF0, CHR 0x9F, CHR 0x9A, CHR 0xA8]"

definition apostrophe :: string where
  "apostrophe = [CHR 0x27]"

subsection \<open>Security system\<close>

definition simulation_warning :: string where
  "simulation_warning = warning_sign @
     '' Security system requires Raspberry Pi with GPIO support. Running in simulation mode.''"

definition initialize_security_system :: "platform \<Rightarrow> string \<Rightarrow> server \<Rightarrow> server \<times> string" where
  "initialize_security_system p user_name s =
     (if \<not> gpio_available s then (s, simulation_warning)
      else (case gpio_calls_seq 5 s of
              (s1, False) \<Rightarrow>
                (s1, warning_sign @ '' Error initializing security system: '' @ exc_text p)
            | (s1, True) \<Rightarrow>
                (let s2 = s1\<lparr>security_system_active := True\<rparr>;
                     s3 = log_event p ''security_system_activated''
                            (''Home security system activated by '' @ user_name)
                            (Some user_name) None s2;
                     notification_msg = ''[NOTIFICATION] '' @ shield @ '' '' @ user_name @
                        '': Home Security System INITIALIZED at '' @ strftime_hms (clock s3)
                 in (add_pending_notification p notification_msg None s3,
                     check_mark @ '' Home Security System INITIALIZED. Laser module activated and monitoring for intruders.''))))"

definition terminate_security_system :: "platform \<Rightarrow> string \<Rightarrow> server \<Rightarrow> server \<times> string" where
  "terminate_security_system p user_name s =
     (if \<not> gpio_available s then (s, simulation_warning)
      else (case gpio_calls_seq 4 s of
              (s1, False) \<Rightarrow>
                (s1, warning_sign @ '' Error terminating security system: '' @ exc_text p)
            | (s1, True) \<Rightarrow>
                (let s2 = s1\<lparr>security_system_active := False\<rparr>;
                     s3 = log_event p ''security_system_deactivated''
                            (''Home security system deactivated by '' @ user_name)
                            (Some user_name) None s2;
                     notification_msg = ''[NOTIFICATION] '' @ shield @ '' '' @ user_name @
                        '': Home Security System TERMINATED at '' @ strftime_hms (clock s3)
                 in (add_pending_notification p notification_msg None s3,
                     check_mark @ '' Home Security System TERMINATED. All modules deactivated.''))))"

text \<open>
  \<open>check_security_system\<close>: read the sensor; on a high reading switch the buzzer on, add the
  alert, hold five seconds, switch the buzzer off. An exception from any GPIO call ends it.
\<close>

definition check_security_system :: "platform \<Rightarrow> server \<Rightarrow> server" where
  "check_security_system p s =
     (if \<not> security_system_active s \<or> \<not> gpio_available s then s
      else if gpio_fails s then gpio s
      else if \<not> ldr_high s (gpio_calls s) then gpio s
      else (let s1 = gpio s in
            if gpio_fails s1 then gpio s1
            else (let s2 = gpio s1;
                      notification_msg = ''[ALERT] '' @ siren @
                        '' Suspicious activity detected by Home Security System at '' @
                        strftime_hms (clock s2)
                  in gpio (sleep 5000 (add_pending_notification p notification_msg None s2)))))"

subsection \<open>Scheduling sub-parser\<close>

text \<open>
  \<^verbatim>\<open>re.search(r'in\s+(\d+)\s+(second|seconds|minute|minutes|hour|hours)', text)\<close> on a text
  of ASCII characters. \<open>match_time_at\<close> matches at the start of its argument. Each of the two whitespace runs
  and the digit run must be taken whole, since the character a shorter run would leave
  next belongs to the run and not to what follows in the pattern; the first alternative
  that matches wins, so the second group is always a singular. The result is the two
  groups.
\<close>

definition match_unit :: "string \<Rightarrow> string option" where
  \<comment> \<open>the alternation \<^verbatim>\<open>(second|seconds|minute|minutes|hour|hours)\<close> at the start of \<open>r\<close>\<close>
  "match_unit r =
     (if prefix ''second'' r then Some ''second''
      else if prefix ''minute'' r then Some ''minute''
      else if prefix ''hour'' r then Some ''hour''
      else None)"

definition match_time_at :: "string \<Rightarrow> (string \<times> string) option" where
  "match_time_at t =
     (if prefix ''in'' t then
        (let r1 = drop 2 t;
             r2 = dropWhile isspace r1;
             digits = takeWhile isdigit r2;
             r3 = dropWhile isdigit r2;
             r4 = dropWhile isspace r3
         in if takeWhile isspace r1 \<noteq> [] \<and> digits \<noteq> [] \<and> takeWhile isspace r3 \<noteq> [] then
              (case match_unit r4 of Some unit \<Rightarrow> Some (digits, unit) | None \<Rightarrow> None)
            else None)
      else None)"

fun re_search_time :: "string \<Rightarrow> (string \<times> string) option" where
  "re_search_time [] = None"
| "re_search_time (c # cs) =
     (case match_time_at (c # cs) of Some m \<Rightarrow> Some m | None \<Rightarrow> re_search_time cs)"

definition digit_value :: "char \<Rightarrow> nat" where
  "digit_value c = length (takeWhile (\<lambda>d. d \<noteq> c) ''0123456789'')"

definition int_of_digits :: "string \<Rightarrow> nat" where
  \<comment> \<open>the value of a run of ASCII decimal digits\<close>
  "int_of_digits ds = foldl (\<lambda>a c. 10 * a + digit_value c) 0 ds"

definition ascii_int :: "string \<Rightarrow> error + nat" where
  \<comment> \<open>\<^verbatim>\<open>int\<close> on such a run, with the default limit of 4300 digits\<close>
  "ascii_int ds = (if length ds > 4300 then Inl ValueError else Inr (int_of_digits ds))"

definition keyword_device :: "string \<Rightarrow> device option" where
  \<comment> \<open>the \<^verbatim>\<open>device_name\<close> chain of \<^verbatim>\<open>_process_scheduled_command\<close>, which
      \<^verbatim>\<open>generate_response\<close> and \<^verbatim>\<open>send_message\<close> repeat word for word\<close>
  "keyword_device text =
     (if contains ''light'' text then Some light
      else if contains ''ac'' text \<or> contains ''air condition'' text then Some ac
      else if contains ''washing machine'' text then Some washing_machine
      else None)"

definition sched_action :: "string \<Rightarrow> onoff option" where
  \<comment> \<open>the \<^verbatim>\<open>action\<close> chain of \<^verbatim>\<open>_process_scheduled_command\<close>\<close>
  "sched_action text =
     (if contains ''turn on'' text \<or> contains ''switch on'' text then Some On
      else if contains ''turn off'' text \<or> contains ''switch off'' text then Some Off
      else None)"

definition unsupported_format :: string where
  "unsupported_format = warning_sign @ '' Unsupported schedule format. Try: '' @
     apostrophe @ ''Schedule light on in 30 seconds'' @ apostrophe @ '' or '' @
     apostrophe @ ''Schedule light on in 5 minutes'' @ apostrophe @ '' or '' @
     apostrophe @ ''Schedule ac off in 1 hour'' @ apostrophe"

definition unsupported_unit :: string where
  "unsupported_unit =
     warning_sign @ '' Unsupported time unit. Please use seconds, minutes or hours.''"

definition undetermined_reply :: string where
  "undetermined_reply = warning_sign @ '' Could not determine device or action for scheduling.''"

definition process_scheduled_command ::
    "platform \<Rightarrow> string \<Rightarrow> string \<Rightarrow> server \<Rightarrow> error + server \<times> string" where
  "process_scheduled_command p text user_name s =
     (case re_search p text of
        None \<Rightarrow> Inr (s, unsupported_format)
      | Some (digits, unit) \<Rightarrow>
         (case py_int p digits of
            Inl e \<Rightarrow> Inl e
          | Inr amount \<Rightarrow>
         (case (if contains ''second'' unit then Some (datetime_add (clock s) (amount * 1000))
                else if contains ''minute'' unit then Some (datetime_add (clock s) (amount * 60000))
                else if contains ''hour'' unit then Some (datetime_add (clock s) (amount * 3600000))
                else None) of
            None \<Rightarrow> Inr (s, unsupported_unit)
          | Some (Inl e) \<Rightarrow> Inl e
          | Some (Inr scheduled_time) \<Rightarrow>
             (case (keyword_device text, sched_action text) of
                (Some device_name, Some action) \<Rightarrow>
                  (let task = \<lparr>task_device = device_name, task_action = action,
                               task_scheduled_time = scheduled_time, task_user_name = user_name\<rparr>;
                       s1 = save_scheduled_tasks (s\<lparr>scheduled_tasks := scheduled_tasks s @ [task]\<rparr>);
                       reply = ''Scheduled '' @ get_device_user_name device_name @ '' to turn '' @
                               action_display action @ '' at '' @ strftime_hms scheduled_time
                   in Inr (log_event p ''scheduled_task_created'' reply (Some user_name) None s1,
                           alarm_clock @ '' '' @ reply @ ''.''))
              | _ \<Rightarrow> Inr (s, undetermined_reply)))))"

subsection \<open>Device branches of \<open>process_home_automation\<close>\<close>

definition washing_machine_branch ::
    "platform \<Rightarrow> string \<Rightarrow> string \<Rightarrow> server \<Rightarrow> server \<times> string" where
  "washing_machine_branch p text user_name s =
     (if contains ''turn on'' text \<or> contains ''switch on'' text then
        (case control_gpio_device washing_machine On (set_status washing_machine On s) of
           (s1, True) \<Rightarrow>
             (log_event p ''device_control'' ''Washing Machine turned ON'' (Some user_name) None s1,
              check_mark @ '' Washing Machine turned ON.'')
         | (s1, False) \<Rightarrow>
             (s1, warning_sign @ '' Error turning on Washing Machine. Please try again.''))
      else if contains ''turn off'' text \<or> contains ''switch off'' text then
        (case control_gpio_device washing_machine Off (set_status washing_machine Off s) of
           (s1, True) \<Rightarrow>
             (log_event p ''device_control'' ''Washing Machine turned OFF'' (Some user_name) None s1,
              check_mark @ '' Washing Machine turned OFF.'')
         | (s1, False) \<Rightarrow>
             (s1, warning_sign @ '' Error turning off Washing Machine. Please try again.''))
      else (s, basket @ '' Washing Machine is currently '' @
               status_str (home_devices s washing_machine) @ ''.''))"

definition ac_branch :: "platform \<Rightarrow> string \<Rightarrow> string \<Rightarrow> server \<Rightarrow> server \<times> string" where
  "ac_branch p text user_name s =
     (if contains ''turn on'' text \<or> contains ''switch on'' text then
        (case control_gpio_device ac On (set_status ac On s) of
           (s1, True) \<Rightarrow>
             (log_event p ''device_control'' ''Air Conditioner turned ON'' (Some user_name) None s1,
              check_mark @ '' Air Conditioner turned ON.'')
         | (s1, False) \<Rightarrow>
             (s1, warning_sign @ '' Error turning on Air Conditioner. Please try again.''))
      else if contains ''turn off'' text \<or> contains ''switch off'' text then
        (case control_gpio_device ac Off (set_status ac Off s) of
           (s1, True) \<Rightarrow>
             (log_event p ''device_control'' ''Air Conditioner turned OFF'' (Some user_name) None s1,
              check_mark @ '' Air Conditioner turned OFF.'')
         | (s1, False) \<Rightarrow>
             (s1, warning_sign @ '' Error turning off Air Conditioner. Please try again.''))
      else (s, snowflake @ '' Air Conditioner is currently '' @
               status_str (home_devices s ac) @ ''.''))"

definition light_branch :: "platform \<Rightarrow> string \<Rightarrow> string \<Rightarrow> server \<Rightarrow> server \<times> string" where
  "light_branch p text user_name s =
     (if contains ''turn on'' text \<or> contains ''switch on'' text then
        (case control_gpio_device light On (set_status light On s) of
           (s1, True) \<Rightarrow>
             (log_event p ''device_control'' ''Light turned ON'' (Some user_name) None s1,
              check_mark @ '' Light turned ON.'')
         | (s1, False) \<Rightarrow> (s1, warning_sign @ '' Error turning on light. Please try again.''))
      else if contains ''turn off'' text \<or> contains ''switch off'' text then
        (case control_gpio_device light Off (set_status light Off s) of
           (s1, True) \<Rightarrow>
             (log_event p ''device_control'' ''Light turned OFF'' (Some user_name) None s1,
              check_mark @ '' Light turned OFF.'')
         | (s1, False) \<Rightarrow> (s1, warning_sign @ '' Error turning off light. Please try again.''))
      else (s, bulb @ '' Light is currently '' @ status_str (home_devices s light) @ ''.''))"

definition initialize_keywords :: "string \<Rightarrow> bool" where
  "initialize_keywords text =
     (contains ''initialize'' text \<or> contains ''start'' text \<or> contains ''activate'' text \<or>
      contains ''arm'' text)"

definition terminate_keywords :: "string \<Rightarrow> bool" where
  "terminate_keywords text =
     (contains ''terminate'' text \<or> contains ''stop'' text \<or> contains ''deactivate'' text \<or>
      contains ''disarm'' text)"

definition security_branch :: "platform \<Rightarrow> string \<Rightarrow> string \<Rightarrow> server \<Rightarrow> server \<times> string" where
  "security_branch p text user_name s =
     (if initialize_keywords text then
        (case initialize_security_system p user_name s of
           (s1, result) \<Rightarrow>
             (log_event p ''security_system'' ''Security system initialized'' (Some user_name) None s1,
              result))
      else if terminate_keywords text then
        (case terminate_security_system p user_name s of
           (s1, result) \<Rightarrow>
             (log_event p ''security_system'' ''Security system terminated'' (Some user_name) None s1,
              result))
      else (s, shield @ '' Home Security System is currently '' @
               (if security_system_active s then ''ACTIVE'' else ''INACTIVE'') @ ''.''))"

definition ac_keywords :: "platform \<Rightarrow> string \<Rightarrow> bool" where
  \<comment> \<open>the condition of the air-conditioner branch\<close>
  "ac_keywords p text =
     (contains ''ac '' text \<or> contains '' air condition'' text \<or> startswith text ''ac'' \<or>
      text = ''ac'' \<or> ''ac'' \<in> set (py_split p text))"

definition security_keywords :: "string \<Rightarrow> bool" where
  \<comment> \<open>the condition of the security branch\<close>
  "security_keywords text =
     (contains ''security'' text \<or> contains ''laser'' text \<or> contains ''intruder'' text)"

definition process_home_automation ::
    "platform \<Rightarrow> string \<Rightarrow> string \<Rightarrow> server \<Rightarrow> error + server \<times> string" where
  "process_home_automation p text0 user_name s =
     (let text = py_lower p text0 in
      if contains ''schedule'' text \<or> contains ''timer'' text then
        process_scheduled_command p text user_name s
      else if contains ''washing machine'' text then Inr (washing_machine_branch p text user_name s)
      else if ac_keywords p text then Inr (ac_branch p text user_name s)
      else if contains ''light'' text then Inr (light_branch p text user_name s)
      else if security_keywords text then Inr (security_branch p text user_name s)
      else Inr (s, ''''))"

subsection \<open>Event log rendering\<close>

definition parsed_entries :: "log_line list \<Rightarrow> log_entry list" where
  \<comment> \<open>the lines that decode, in file order\<close>
  "parsed_entries ls = concat (map (\<lambda>l. case l of Entry e \<Rightarrow> [e] | Garbage \<Rightarrow> []) ls)"

definition sort_newest_first :: "log_entry list \<Rightarrow> log_entry list" where
  \<comment> \<open>\<^verbatim>\<open>sort(key=lambda x: x['timestamp'], reverse=True)\<close>: descending and stable\<close>
  "sort_newest_first es = rev (sort_key e_timestamp (rev es))"

definition str_int :: "int \<Rightarrow> string" where
  "str_int i = (if i < 0 then ''-'' @ str_nat (nat (- i)) else str_nat (nat i))"

definition join :: "string \<Rightarrow> string list \<Rightarrow> string" where
  "join sep ls = (case ls of [] \<Rightarrow> [] | l # rest \<Rightarrow> l @ concat (map (\<lambda>x. sep @ x) rest))"

definition newline :: string where
  "newline = [CHR 0x0A]"

definition format_entry :: "platform \<Rightarrow> nat \<times> log_entry \<Rightarrow> string list" where
  "format_entry p ie =
     (case ie of (i, entry) \<Rightarrow>
        [''['' @ pad2_space (i + 1) @ ''] '' @ log_time p (e_timestamp entry),
         ''     Type: '' @ e_event_type entry,
         ''     User: '' @ (case e_user_name entry of None \<Rightarrow> ''None'' | Some n \<Rightarrow> n) @
           '' (ID: '' @ (case e_user_id entry of None \<Rightarrow> ''None'' | Some n \<Rightarrow> str_int n) @ '')'',
         ''     Message: '' @ e_message entry,
         ''''])"

definition render_log :: "platform \<Rightarrow> log_entry list \<Rightarrow> string" where
  \<comment> \<open>the display built from the sorted entries\<close>
  "render_log p log_entries =
     join newline
       ([replicate 60 CHR ''='', ''DETAILED SERVER LOGS'', replicate 60 CHR ''='',
         ''Total Events: '' @ str_nat (length log_entries), ''''] @
        concat (map (format_entry p) (enumerate 0 (take 20 log_entries))) @
        [replicate 60 CHR ''=''])"

definition get_log_details :: "platform \<Rightarrow> server \<Rightarrow> server \<times> string" where
  "get_log_details p s =
     (case events_log s of
        None \<Rightarrow> (s, ''No log entries found.'')
      | Some ls \<Rightarrow>
         (if io_fails s
          then (io OpenRead EVENTS_LOG_FILE s, ''Error retrieving log details: '' @ exc_text p)
          else (let log_entries = sort_newest_first (parsed_entries ls) in
                if log_entries = [] then (io OpenRead EVENTS_LOG_FILE s, ''No log entries found.'')
                else (io OpenRead EVENTS_LOG_FILE s, render_log p log_entries))))"

subsection \<open>\<open>generate_response\<close>\<close>

definition any_in :: "string list \<Rightarrow> string \<Rightarrow> bool" where
  \<comment> \<open>\<^verbatim>\<open>any(keyword in text for keyword in keywords)\<close>\<close>
  "any_in keywords text = list_ex (\<lambda>keyword. contains keyword text) keywords"

definition status_title :: "onoff \<Rightarrow> string" where
  "status_title a = (case a of On \<Rightarrow> ''On'' | Off \<Rightarrow> ''Off'')"

definition device_notification :: "string \<Rightarrow> device \<Rightarrow> string \<Rightarrow> nat \<Rightarrow> string" where
  "device_notification user_name device_name action now =
     ''[NOTIFICATION] '' @ bell @ '' '' @ user_name @ '': '' @ get_device_user_name device_name @
     '' turned '' @ action @ '' at '' @ strftime_hms now"

definition status_message :: "string \<Rightarrow> server \<Rightarrow> string" where
  "status_message user_name s =
     house @ '' '' @ user_name @ '', Current Device Status:'' @ newline @
     concat (map (\<lambda>d. bullet @ '' '' @ get_device_user_name d @ '': '' @
                       status_title (home_devices s d) @ newline)
               [light, ac, washing_machine]) @
     bullet @ '' Home Security System: '' @
     (if security_system_active s then ''ACTIVE'' else ''INACTIVE'') @ newline"

definition generate_response ::
    "platform \<Rightarrow> string \<Rightarrow> int \<Rightarrow> string \<Rightarrow> server \<Rightarrow> error + server \<times> string" where
  "generate_response p message_text user_id user_name s =
     (case process_home_automation p message_text user_name s of
        Inl e \<Rightarrow> Inl e
      | Inr (s1, home_automation_response) \<Rightarrow>
         (let message_lower = py_lower p message_text in
          if home_automation_response \<noteq> [] then
            (if any_in [''turn on'', ''turn off'', ''switch on'', ''switch off''] message_lower then
               (case keyword_device message_lower of
                  Some device_name \<Rightarrow>
                    (let action = (if any_in [''turn on'', ''switch on''] message_lower
                                   then ''ON'' else ''OFF'');
                         notification_msg =
                           device_notification user_name device_name action (clock s1)
                     in Inr (add_pending_notification p notification_msg None s1,
                             home_automation_response))
                | None \<Rightarrow> Inr (s1, home_automation_response))
             else Inr (s1, home_automation_response))
          else if contains ''log details'' message_lower then Inr (get_log_details p s1)
          else if any_in [''hello'', ''hi'', ''hey'', ''greetings''] message_lower then
            Inr (s1, ''Hello '' @ user_name @ ''! Welcome to ToggleTalk Server!'')
          else if any_in [''help'', ''what can you do'', ''commands''] message_lower then
            Inr (s1, ''Hello '' @ user_name @
                 ''! I can help you control your home appliances and security system! Try commands like '' @
                 apostrophe @ ''Turn on the light'' @ apostrophe @ '', '' @
                 apostrophe @ ''Turn off the AC'' @ apostrophe @ '', '' @
                 apostrophe @ ''Initialize security system'' @ apostrophe @ '', or '' @
                 apostrophe @ ''Terminate security system'' @ apostrophe @ ''.'')
          else if any_in [''status'', ''state'', ''how is''] message_lower then
            Inr (s1, status_message user_name s1)
          else Inr (s1, ''Sorry '' @ user_name @ '', I didn'' @ apostrophe @
                    ''t understand that command. Try saying '' @
                    apostrophe @ ''Turn on the light'' @ apostrophe @ '' or '' @
                    apostrophe @ ''Turn off the AC'' @ apostrophe @ ''.'')))"

section \<open>Scheduler\<close>

definition execute_scheduled_task :: "platform \<Rightarrow> task \<Rightarrow> server \<Rightarrow> server" where
  "execute_scheduled_task p task s =
     (case control_gpio_device (task_device task) (task_action task) s of
        (s1, True) \<Rightarrow>
          (let s2 = set_status (task_device task) (task_action task) s1;
               notification_msg =
                 device_notification (task_user_name task) (task_device task)
                   (action_display (task_action task)) (clock s2);
               s3 = s2\<lparr>notification_queue := notification_queue s2 @ [notification_msg]\<rparr>
           in log_event p ''scheduled_task_executed'' notification_msg
                (Some (task_user_name task)) None s3)
      | (s1, False) \<Rightarrow> s1)"

text \<open>
  The first loop of a tick: every task that is due at \<open>current_time\<close> is executed and
  collected; the result is the state and \<^verbatim>\<open>tasks_to_remove\<close>.
\<close>

fun run_due :: "platform \<Rightarrow> nat \<Rightarrow> task list \<Rightarrow> server \<Rightarrow> server \<times> task list" where
  "run_due p current_time [] s = (s, [])"
| "run_due p current_time (task # tasks) s =
     (if task_scheduled_time task \<le> current_time
      then (case run_due p current_time tasks (execute_scheduled_task p task s) of
              (s', tasks_to_remove) \<Rightarrow> (s', task # tasks_to_remove))
      else run_due p current_time tasks s)"

text \<open>The second loop: \<^verbatim>\<open>list.remove\<close> deletes the first equal element, if there is one.\<close>

fun remove_tasks :: "task list \<Rightarrow> task list \<Rightarrow> task list" where
  "remove_tasks [] tasks = tasks"
| "remove_tasks (task # tasks_to_remove) tasks = remove_tasks tasks_to_remove (remove1 task tasks)"

text \<open>One pass of the body of \<^verbatim>\<open>_scheduler_loop\<close>, up to and including its two-second sleep.\<close>

definition scheduler_tick :: "platform \<Rightarrow> server \<Rightarrow> server" where
  "scheduler_tick p s =
     (case run_due p (clock s) (scheduled_tasks s) s of
        (s1, tasks_to_remove) \<Rightarrow>
          (let s2 = s1\<lparr>scheduled_tasks := remove_tasks tasks_to_remove (scheduled_tasks s1)\<rparr>;
               s3 = (if tasks_to_remove \<noteq> [] then save_scheduled_tasks s2 else s2);
               s4 = (if security_system_active s3 then check_security_system p s3 else s3)
           in sleep 2000 s4))"

section \<open>Request boundary\<close>

definition add_chat_id :: "int \<Rightarrow> server \<Rightarrow> server" where
  "add_chat_id chat_id s =
     (if chat_id \<in> chat_ids s then s
      else save_chat_ids (s\<lparr>chat_ids := insert chat_id (chat_ids s)\<rparr>))"

definition clip_message :: "string \<Rightarrow> string" where
  \<comment> \<open>a message of more than 1000 characters is cut there and gets an ellipsis\<close>
  "clip_message message =
     (if py_len message > 1000 then py_take 1000 message @ ''...'' else message)"

definition error_response :: "string \<Rightarrow> string" where
  \<comment> \<open>the response when \<^verbatim>\<open>generate_response\<close> raises\<close>
  "error_response user_name =
     ''Sorry '' @ user_name @ '', I encountered an error processing your request.''"

text \<open>
  \<open>send_message\<close> from the point where the request has been decoded and validated; the
  result is the state and the \<^verbatim>\<open>response\<close> field of the answer.
\<close>

definition send_message :: "platform \<Rightarrow> string \<Rightarrow> string \<Rightarrow> int \<Rightarrow> server \<Rightarrow> server \<times> string" where
  "send_message p message0 user_name user_id s =
     (let message = clip_message message0;
          s1 = add_chat_id user_id s;
          (s2, response) =
             (case generate_response p message user_id user_name s1 of
                Inr r \<Rightarrow> r
              | Inl e \<Rightarrow> (s1, error_response user_name));
          message_lower = py_lower p message;
          notification_msg = ''[NOTIFICATION] '' @ bell @ '' '' @ user_name @ '': '' @ message @
                             '' at '' @ strftime_hms (clock s2);
          notify = (\<lambda>t. (add_pending_notification p notification_msg None t)
                          \<lparr>notification_queue := notification_queue t @ [notification_msg]\<rparr>)
      in if any_in [''turn on'', ''turn off'', ''switch on'', ''switch off'', ''schedule'']
              message_lower then
           (if keyword_device message_lower \<noteq> None \<and> \<not> contains ''schedule'' message_lower
            then (notify s2, response) else (s2, response))
         else if any_in [''initialize'', ''start'', ''activate'', ''arm'', ''terminate'', ''stop'',
                         ''deactivate'', ''disarm''] message_lower then
           (notify s2, response)
         else (s2, response))"

section \<open>Start-up\<close>

text \<open>
  The server after \<^verbatim>\<open>__init__\<close> on a disk without files: every device off, the security
  system inactive, empty collections. The arguments are the clock, whether the GPIO library
  is bound, and the two failure oracles; the sensor reads low.
\<close>

definition fresh_server :: "nat \<Rightarrow> bool \<Rightarrow> (nat \<Rightarrow> bool) \<Rightarrow> (nat \<Rightarrow> bool) \<Rightarrow> server" where
  "fresh_server now available gpio_bad io_bad =
     \<lparr>clock = now, gpio_available = available, gpio_raises = gpio_bad, ldr_high = (\<lambda>k. False),
      gpio_calls = 0, io_raises = io_bad, io_trace = [],
      home_devices = (\<lambda>d. Off), security_system_active = False, chat_ids = {},
      scheduled_tasks = [], pending_notifications = [], notification_queue = [],
      events_log = None, scheduled_tasks_file = Absent, pending_notifications_file = Absent,
      chat_ids_file = Absent, backups = []\<rparr>"

definition noon :: nat where
  \<comment> \<open>2026-11-03 12:34:56, in milliseconds since \<^verbatim>\<open>datetime.min\<close>\<close>
  "noon = 63929306096000"

definition simulated_server :: server where
  \<comment> \<open>no GPIO library bound: simulation mode\<close>
  "simulated_server = fresh_server noon False (\<lambda>k. False) (\<lambda>k. False)"

definition broken_gpio_server :: server where
  \<comment> \<open>the GPIO library is bound and every call into it raises\<close>
  "broken_gpio_server = fresh_server noon True (\<lambda>k. True) (\<lambda>k. False)"

definition light_on_task :: task where
  "light_on_task = \<lparr>task_device = light, task_action = On,
                     task_scheduled_time = 63929306090000, task_user_name = ''Alice''\<rparr>"

definition ac_off_task :: task where
  "ac_off_task = \<lparr>task_device = ac, task_action = Off,
                   task_scheduled_time = 63929309696000, task_user_name = ''Bob''\<rparr>"

definition plain_platform :: platform where
  \<comment> \<open>the library on ASCII text, and one choice of the other parameters\<close>
  "plain_platform =
     \<lparr>md5_id = length, isoformat = str_nat, log_time = take 19, exc_text = ''error'',
      py_lower = lower, py_split = split, re_search = re_search_time, py_int = ascii_int\<rparr>"

section \<open>Notions used in the statements\<close>

definition due_tasks :: "server \<Rightarrow> task list" where
  \<comment> \<open>the pending tasks with \<^verbatim>\<open>scheduled_time <= now\<close>, in list order\<close>
  "due_tasks s = filter (\<lambda>t. task_scheduled_time t \<le> clock s) (scheduled_tasks s)"

definition task_file_writes :: "server \<Rightarrow> nat" where
  \<comment> \<open>how often the scheduled-tasks file has been opened for writing\<close>
  "task_file_writes s = length (filter (\<lambda>op. op = (OpenWrite, SCHEDULED_TASKS_FILE)) (io_trace s))"

definition duration_ms :: "nat \<Rightarrow> string \<Rightarrow> nat option" where
  \<comment> \<open>the length of \<open>amount\<close> seconds, minutes or hours, by the unit tests of
      \<^verbatim>\<open>_process_scheduled_command\<close>; none for a unit that passes no test\<close>
  "duration_ms amount unit =
     (if contains ''second'' unit then Some (amount * 1000)
      else if contains ''minute'' unit then Some (amount * 60000)
      else if contains ''hour'' unit then Some (amount * 3600000)
      else None)"

definition interpreter_device :: "platform \<Rightarrow> string \<Rightarrow> device option" where
  \<comment> \<open>the device tests of \<^verbatim>\<open>process_home_automation\<close>, in its order\<close>
  "interpreter_device p text =
     (if contains ''washing machine'' text then Some washing_machine
      else if ac_keywords p text then Some ac
      else if contains ''light'' text then Some light
      else None)"

section \<open>Frame lemmas\<close>

text \<open>
  What a composite operation leaves alone follows from what its steps leave alone. Each
  lemma is stated for an arbitrary observation \<open>f\<close> of the state.
\<close>

lemmas step_defs = io_def sleep_def gpio_def set_status_def

lemma retry_write_frame:
  assumes "\<And>t. f (wr t) = f t" and "\<And>t. f (io OpenWrite name t) = f t"
    and "\<And>ms t. f (sleep ms t) = f t"
  shows "f (retry_write n name wr s) = f s"
  using assms by (induction n name wr s rule: retry_write.induct) simp_all

lemma gpio_attempts_frame:
  assumes "\<And>t. f (gpio t) = f t" and "\<And>ms t. f (sleep ms t) = f t"
  shows "f (fst (gpio_attempts n s)) = f s"
  using assms by (induction n s rule: gpio_attempts.induct) simp_all

lemma gpio_calls_seq_frame:
  assumes "\<And>t. f (gpio t) = f t"
  shows "f (fst (gpio_calls_seq n s)) = f s"
  using assms by (induction n s rule: gpio_calls_seq.induct) simp_all

lemma control_gpio_device_frame:
  assumes "\<And>t. f (gpio t) = f t" and "\<And>ms t. f (sleep ms t) = f t"
  shows "f (fst (control_gpio_device d a s)) = f s"
  using assms by (simp add: control_gpio_device_def gpio_attempts_frame)

lemma log_event_frame:
  assumes "\<And>t. f (io OpenAppend EVENTS_LOG_FILE t) = f t"
    and "\<And>t e. f (t\<lparr>events_log := e\<rparr>) = f t"
  shows "f (log_event p ty m u i s) = f s"
  using assms by (simp add: log_event_def Let_def)

lemma save_scheduled_tasks_frame:
  assumes "\<And>t x. f (t\<lparr>scheduled_tasks_file := x\<rparr>) = f t"
    and "\<And>t. f (io OpenWrite SCHEDULED_TASKS_FILE t) = f t"
    and "\<And>ms t. f (sleep ms t) = f t"
  shows "f (save_scheduled_tasks s) = f s"
  unfolding save_scheduled_tasks_def using assms by (intro retry_write_frame) simp_all

lemma save_pending_notifications_frame:
  assumes "\<And>t x. f (t\<lparr>pending_notifications_file := x\<rparr>) = f t"
    and "\<And>t. f (io OpenWrite PENDING_NOTIFICATIONS_FILE t) = f t"
    and "\<And>ms t. f (sleep ms t) = f t"
  shows "f (save_pending_notifications s) = f s"
  unfolding save_pending_notifications_def using assms by (intro retry_write_frame) simp_all

lemma add_pending_notification_frame:
  assumes "\<And>t x. f (t\<lparr>pending_notifications := x\<rparr>) = f t"
    and "\<And>t x. f (t\<lparr>pending_notifications_file := x\<rparr>) = f t"
    and "\<And>t. f (io OpenWrite PENDING_NOTIFICATIONS_FILE t) = f t"
    and "\<And>ms t. f (sleep ms t) = f t"
  shows "f (add_pending_notification p txt ts s) = f s"
  using assms by (simp add: add_pending_notification_def Let_def save_pending_notifications_frame)

lemma check_security_system_frame:
  assumes "\<And>t. f (gpio t) = f t"
    and "\<And>t x. f (t\<lparr>pending_notifications := x\<rparr>) = f t"
    and "\<And>t x. f (t\<lparr>pending_notifications_file := x\<rparr>) = f t"
    and "\<And>t. f (io OpenWrite PENDING_NOTIFICATIONS_FILE t) = f t"
    and "\<And>ms t. f (sleep ms t) = f t"
  shows "f (check_security_system p s) = f s"
  using assms by (simp add: check_security_system_def Let_def add_pending_notification_frame)

lemma execute_scheduled_task_frame:
  assumes "\<And>t. f (gpio t) = f t" and "\<And>ms t. f (sleep ms t) = f t"
    and "\<And>t h. f (t\<lparr>home_devices := h\<rparr>) = f t"
    and "\<And>t q. f (t\<lparr>notification_queue := q\<rparr>) = f t"
    and "\<And>t. f (io OpenAppend EVENTS_LOG_FILE t) = f t"
    and "\<And>t e. f (t\<lparr>events_log := e\<rparr>) = f t"
  shows "f (execute_scheduled_task p t s) = f s"
proof (cases "control_gpio_device (task_device t) (task_action t) s")
  case (Pair s1 ok)
  have "f s1 = f s"
    using control_gpio_device_frame [of f "task_device t" "task_action t" s] assms(1,2) Pair
    by simp
  with Pair assms show ?thesis
    by (cases ok) (simp_all add: execute_scheduled_task_def Let_def set_status_def log_event_frame)
qed

lemma foldl_execute_frame:
  assumes "\<And>t. f (gpio t) = f t" and "\<And>ms t. f (sleep ms t) = f t"
    and "\<And>t h. f (t\<lparr>home_devices := h\<rparr>) = f t"
    and "\<And>t q. f (t\<lparr>notification_queue := q\<rparr>) = f t"
    and "\<And>t. f (io OpenAppend EVENTS_LOG_FILE t) = f t"
    and "\<And>t e. f (t\<lparr>events_log := e\<rparr>) = f t"
  shows "f (foldl (\<lambda>s t. execute_scheduled_task p t s) s ts) = f s"
  using assms by (induction ts arbitrary: s) (simp_all add: execute_scheduled_task_frame)

text \<open>The definitions that evaluating the model on a concrete state unfolds.\<close>

lemmas string_defs = lower_def lower_char_def startswith_def split_def isspace_def isdigit_def
  ascii_int_def
  check_mark_def warning_sign_def basket_def snowflake_def bulb_def shield_def alarm_clock_def
  bell_def house_def bullet_def siren_def apostrophe_def newline_def

lemmas state_defs = simulated_server_def broken_gpio_server_def fresh_server_def
  light_on_task_def ac_off_task_def noon_def plain_platform_def

lemmas run_defs0 = step_defs io_fails_def gpio_fails_def control_gpio_device_def log_event_def
  add_pending_notification_def save_pending_notifications_def save_scheduled_tasks_def
  new_notification_def execute_scheduled_task_def scheduler_tick_def check_security_system_def
  device_notification_def get_device_user_name_def action_display_def status_str_def
  strftime_hms_def pad2_zero_def
  CHAT_IDS_FILE_def SCHEDULED_TASKS_FILE_def PENDING_NOTIFICATIONS_FILE_def EVENTS_LOG_FILE_def
  Let_def

lemma retry_write_3:
  "retry_write 3 name wr s =
     (if io_fails s then
        (if io_fails (sleep 1000 (io OpenWrite name s)) then
           (if io_fails (sleep 1000 (io OpenWrite name (sleep 1000 (io OpenWrite name s))))
            then io OpenWrite name (sleep 1000 (io OpenWrite name (sleep 1000 (io OpenWrite name s))))
            else wr (io OpenWrite name (sleep 1000 (io OpenWrite name (sleep 1000 (io OpenWrite name s))))))
         else wr (io OpenWrite name (sleep 1000 (io OpenWrite name s))))
      else wr (io OpenWrite name s))"
  by (simp add: numeral_3_eq_3)

lemma gpio_attempts_3:
  "gpio_attempts 3 s =
     (if gpio_fails s then
        (if gpio_fails (sleep 500 (gpio s)) then
           (if gpio_fails (sleep 500 (gpio (sleep 500 (gpio s))))
            then (gpio (sleep 500 (gpio (sleep 500 (gpio s)))), False)
            else (gpio (sleep 500 (gpio (sleep 500 (gpio s)))), True))
         else (gpio (sleep 500 (gpio s)), True))
      else (gpio s, True))"
  by (simp add: numeral_3_eq_3)

lemmas run_defs = run_defs0 retry_write_3 gpio_attempts_3

lemmas boundary_defs = send_message_def clip_message_def py_len_def is_continuation_def
  error_response_def add_chat_id_def save_chat_ids_def

section \<open>Substrings\<close>

lemma contains_sublist: "contains sub t = sublist sub t"
  by (induction t) (simp_all add: sublist_Cons_right)

lemma contains_trans: "contains a b \<Longrightarrow> contains b t \<Longrightarrow> contains a t"
  unfolding contains_sublist by (rule sublist_order.order.trans)

lemma washing_machine_has_ac: "contains ''washing machine'' t \<Longrightarrow> contains ''ac'' t"
  by (rule contains_trans [of _ "''washing machine''"]) simp_all

text \<open>
  The third test of the \<^verbatim>\<open>device_name\<close> chain is never reached with a text that passes
  it: a text with \<^verbatim>\<open>washing machine\<close> in it has \<^verbatim>\<open>ac\<close> in it.
\<close>

lemma keyword_device_never_washing_machine: "keyword_device t \<noteq> Some washing_machine"
  using washing_machine_has_ac [of t] by (auto simp add: keyword_device_def)

section \<open>The loops of the scheduler\<close>

lemma run_due_snd:
  "snd (run_due p now tasks s) = filter (\<lambda>t. task_scheduled_time t \<le> now) tasks"
  by (induction tasks arbitrary: s) (simp_all add: case_prod_beta)

lemma run_due_fst:
  "fst (run_due p now tasks s) =
     foldl (\<lambda>s t. execute_scheduled_task p t s) s
       (filter (\<lambda>t. task_scheduled_time t \<le> now) tasks)"
  by (induction tasks arbitrary: s) (simp_all add: case_prod_beta)

lemma remove_tasks_filter_gen:
  "\<forall>y \<in> set ys. \<not> P y \<Longrightarrow>
   remove_tasks (filter P xs) (ys @ xs) = ys @ filter (\<lambda>t. \<not> P t) xs"
proof (induction xs arbitrary: ys)
  case Nil
  then show ?case by simp
next
  case (Cons x xs)
  show ?case
  proof (cases "P x")
    case True
    with Cons.prems have "x \<notin> set ys" by auto
    then have "remove1 x (ys @ x # xs) = ys @ xs" by (simp add: remove1_append)
    with True Cons.IH [OF Cons.prems] show ?thesis by simp
  next
    case False
    with Cons.prems have "\<forall>y \<in> set (ys @ [x]). \<not> P y" by auto
    from Cons.IH [OF this] False show ?thesis by simp
  qed
qed

lemma remove_tasks_filter:
  "remove_tasks (filter P xs) xs = filter (\<lambda>t. \<not> P t) xs"
  using remove_tasks_filter_gen [of "[]" P xs] by simp

lemma tick_shape:
  "scheduler_tick p s =
     (let s1 = foldl (\<lambda>s t. execute_scheduled_task p t s) s (due_tasks s);
          s2 = s1\<lparr>scheduled_tasks := remove_tasks (due_tasks s) (scheduled_tasks s1)\<rparr>;
          s3 = (if due_tasks s \<noteq> [] then save_scheduled_tasks s2 else s2);
          s4 = (if security_system_active s3 then check_security_system p s3 else s3)
      in sleep 2000 s4)"
  by (simp add: scheduler_tick_def case_prod_beta run_due_fst run_due_snd due_tasks_def Let_def)

lemma tick_tasks:
  "scheduled_tasks (scheduler_tick p s) =
     filter (\<lambda>t. \<not> task_scheduled_time t \<le> clock s) (scheduled_tasks s)"
proof -
  have a: "scheduled_tasks (check_security_system p t) = scheduled_tasks t" for t
    by (rule check_security_system_frame) (simp_all add: step_defs)
  have b: "scheduled_tasks (save_scheduled_tasks t) = scheduled_tasks t" for t
    by (rule save_scheduled_tasks_frame) (simp_all add: step_defs)
  have c: "scheduled_tasks (foldl (\<lambda>s t. execute_scheduled_task p t s) t ts) = scheduled_tasks t"
    for t ts
    by (rule foldl_execute_frame) (simp_all add: step_defs)
  have d: "filter P xs = [] \<Longrightarrow> filter (\<lambda>t. \<not> P t) xs = xs" for P and xs :: "task list"
    by (simp add: filter_empty_conv filter_id_conv)
  show ?thesis
    by (auto simp add: tick_shape Let_def a b c sleep_def due_tasks_def remove_tasks_filter d)
qed

lemma tick_effects:
  "home_devices (scheduler_tick p s) =
     home_devices (foldl (\<lambda>s t. execute_scheduled_task p t s) s (due_tasks s)) \<and>
   notification_queue (scheduler_tick p s) =
     notification_queue (foldl (\<lambda>s t. execute_scheduled_task p t s) s (due_tasks s)) \<and>
   events_log (scheduler_tick p s) =
     events_log (foldl (\<lambda>s t. execute_scheduled_task p t s) s (due_tasks s))"
proof -
  have a: "home_devices (check_security_system p t) = home_devices t"
    "notification_queue (check_security_system p t) = notification_queue t"
    "events_log (check_security_system p t) = events_log t" for t
    by (rule check_security_system_frame; simp add: step_defs)+
  have b: "home_devices (save_scheduled_tasks t) = home_devices t"
    "notification_queue (save_scheduled_tasks t) = notification_queue t"
    "events_log (save_scheduled_tasks t) = events_log t" for t
    by (rule save_scheduled_tasks_frame; simp add: step_defs)+
  show ?thesis
    by (simp add: tick_shape Let_def a b sleep_def)
qed

lemma execute_failure:
  assumes "\<not> snd (control_gpio_device (task_device t) (task_action t) s)"
  shows "home_devices (execute_scheduled_task p t s) = home_devices s"
    and "notification_queue (execute_scheduled_task p t s) = notification_queue s"
    and "pending_notifications (execute_scheduled_task p t s) = pending_notifications s"
    and "events_log (execute_scheduled_task p t s) = events_log s"
proof -
  have e: "execute_scheduled_task p t s = fst (control_gpio_device (task_device t) (task_action t) s)"
    using assms by (cases "control_gpio_device (task_device t) (task_action t) s")
      (simp add: execute_scheduled_task_def)
  show "home_devices (execute_scheduled_task p t s) = home_devices s"
    unfolding e by (rule control_gpio_device_frame) (simp_all add: step_defs)
  show "notification_queue (execute_scheduled_task p t s) = notification_queue s"
    unfolding e by (rule control_gpio_device_frame) (simp_all add: step_defs)
  show "pending_notifications (execute_scheduled_task p t s) = pending_notifications s"
    unfolding e by (rule control_gpio_device_frame) (simp_all add: step_defs)
  show "events_log (execute_scheduled_task p t s) = events_log s"
    unfolding e by (rule control_gpio_device_frame) (simp_all add: step_defs)
qed

lemma execute_success:
  assumes "snd (control_gpio_device (task_device t) (task_action t) s)"
  shows "home_devices (execute_scheduled_task p t s) = (home_devices s)(task_device t := task_action t)"
    and "notification_queue (execute_scheduled_task p t s) =
           notification_queue s @
             [device_notification (task_user_name t) (task_device t)
                (action_display (task_action t)) (clock (execute_scheduled_task p t s))]"
proof -
  obtain s1 where c: "control_gpio_device (task_device t) (task_action t) s = (s1, True)"
    using assms by (cases "control_gpio_device (task_device t) (task_action t) s") auto
  have h: "home_devices s1 = home_devices s"
    using control_gpio_device_frame [of home_devices "task_device t" "task_action t" s] c
    by (simp add: step_defs)
  have q: "notification_queue s1 = notification_queue s"
    using control_gpio_device_frame [of notification_queue "task_device t" "task_action t" s] c
    by (simp add: step_defs)
  have l: "home_devices (log_event p ty m u i x) = home_devices x"
    "notification_queue (log_event p ty m u i x) = notification_queue x"
    "clock (log_event p ty m u i x) = clock x" for ty m u i x
    by (rule log_event_frame; simp add: step_defs)+
  show "home_devices (execute_scheduled_task p t s) = (home_devices s)(task_device t := task_action t)"
    by (simp add: execute_scheduled_task_def c Let_def l set_status_def h)
  show "notification_queue (execute_scheduled_task p t s) =
           notification_queue s @
             [device_notification (task_user_name t) (task_device t)
                (action_display (task_action t)) (clock (execute_scheduled_task p t s))]"
    by (simp add: execute_scheduled_task_def c Let_def l set_status_def q)
qed

lemma tick_pending:
  assumes "\<not> security_system_active s"
  shows "pending_notifications (scheduler_tick p s) = pending_notifications s"
proof -
  have b: "pending_notifications (save_scheduled_tasks t) = pending_notifications t"
    "security_system_active (save_scheduled_tasks t) = security_system_active t" for t
    by (rule save_scheduled_tasks_frame; simp add: step_defs)+
  have c: "pending_notifications (foldl (\<lambda>s t. execute_scheduled_task p t s) t ts) =
             pending_notifications t"
    "security_system_active (foldl (\<lambda>s t. execute_scheduled_task p t s) t ts) =
             security_system_active t" for t ts
    by (rule foldl_execute_frame; simp add: step_defs)+
  show ?thesis
    using assms by (simp add: tick_shape Let_def b c sleep_def)
qed

lemma save_scheduled_tasks_ok:
  "\<not> io_fails s \<Longrightarrow>
   save_scheduled_tasks s =
     (io OpenWrite SCHEDULED_TASKS_FILE s)\<lparr>scheduled_tasks_file := Decoded (scheduled_tasks s)\<rparr>"
  by (simp add: save_scheduled_tasks_def numeral_3_eq_3 io_def)

lemma task_file_writes_steps:
  "task_file_writes (sleep ms t) = task_file_writes t"
  "task_file_writes (t\<lparr>scheduled_tasks := x\<rparr>) = task_file_writes t"
  "task_file_writes ((io OpenWrite SCHEDULED_TASKS_FILE t)\<lparr>scheduled_tasks_file := y\<rparr>) =
     task_file_writes t + 1"
  by (simp_all add: task_file_writes_def step_defs)

lemma tick_no_due:
  assumes "due_tasks s = []"
  shows "task_file_writes (scheduler_tick p s) = task_file_writes s"
    and "scheduled_tasks_file (scheduler_tick p s) = scheduled_tasks_file s"
proof -
  have a: "task_file_writes (check_security_system p t) = task_file_writes t"
    "scheduled_tasks_file (check_security_system p t) = scheduled_tasks_file t" for t
    by (rule check_security_system_frame;
        simp add: step_defs task_file_writes_def PENDING_NOTIFICATIONS_FILE_def
          SCHEDULED_TASKS_FILE_def)+
  show "task_file_writes (scheduler_tick p s) = task_file_writes s"
    using assms by (simp add: tick_shape Let_def a task_file_writes_steps)
  show "scheduled_tasks_file (scheduler_tick p s) = scheduled_tasks_file s"
    using assms by (simp add: tick_shape Let_def a sleep_def)
qed

lemma tick_some_due:
  assumes "due_tasks s \<noteq> []" and "\<forall>k. \<not> io_raises s k"
  shows "task_file_writes (scheduler_tick p s) = task_file_writes s + 1"
    and "scheduled_tasks_file (scheduler_tick p s) = Decoded (scheduled_tasks (scheduler_tick p s))"
proof -
  define s1 where "s1 = foldl (\<lambda>s t. execute_scheduled_task p t s) s (due_tasks s)"
  define s2 where "s2 = s1\<lparr>scheduled_tasks := remove_tasks (due_tasks s) (scheduled_tasks s1)\<rparr>"
  have a: "task_file_writes (check_security_system p t) = task_file_writes t"
    "scheduled_tasks_file (check_security_system p t) = scheduled_tasks_file t"
    "scheduled_tasks (check_security_system p t) = scheduled_tasks t" for t
    by (rule check_security_system_frame;
        simp add: step_defs task_file_writes_def PENDING_NOTIFICATIONS_FILE_def
          SCHEDULED_TASKS_FILE_def)+
  have c: "task_file_writes s1 = task_file_writes s" "io_raises s1 = io_raises s"
    unfolding s1_def
    by (rule foldl_execute_frame;
        simp add: step_defs task_file_writes_def EVENTS_LOG_FILE_def SCHEDULED_TASKS_FILE_def)+
  have ok: "\<not> io_fails s2"
    using assms(2) c(2) by (simp add: io_fails_def s2_def)
  have w: "task_file_writes s2 = task_file_writes s"
    using c(1) by (simp add: s2_def task_file_writes_steps)
  have t: "scheduler_tick p s =
      sleep 2000 (if security_system_active (save_scheduled_tasks s2)
                  then check_security_system p (save_scheduled_tasks s2)
                  else save_scheduled_tasks s2)"
    using assms(1) by (simp add: tick_shape Let_def s1_def s2_def)
  show "task_file_writes (scheduler_tick p s) = task_file_writes s + 1"
    using w by (simp add: t a save_scheduled_tasks_ok [OF ok] task_file_writes_steps)
  show "scheduled_tasks_file (scheduler_tick p s) = Decoded (scheduled_tasks (scheduler_tick p s))"
    by (simp add: t a save_scheduled_tasks_ok [OF ok] sleep_def io_def)
qed

section \<open>The scheduling sub-parser\<close>

lemma match_unit_values:
  "match_unit r = Some u \<Longrightarrow> u = ''second'' \<or> u = ''minute'' \<or> u = ''hour''"
  by (simp add: match_unit_def split: if_split_asm)

lemma match_time_at_unit:
  assumes "match_time_at t = Some (d, u)"
  shows "u = ''second'' \<or> u = ''minute'' \<or> u = ''hour''"
proof -
  define r where "r = dropWhile isspace (dropWhile isdigit (dropWhile isspace (drop 2 t)))"
  have "match_unit r = Some u"
  proof (cases "match_unit r")
    case None
    with assms show ?thesis
      unfolding match_time_at_def Let_def r_def [symmetric] by (simp split: if_split_asm)
  next
    case (Some v)
    with assms show ?thesis
      unfolding match_time_at_def Let_def r_def [symmetric] by (simp split: if_split_asm)
  qed
  then show ?thesis by (rule match_unit_values)
qed

lemma re_search_time_unit:
  "re_search_time t = Some (d, u) \<Longrightarrow> u = ''second'' \<or> u = ''minute'' \<or> u = ''hour''"
proof (induction t)
  case Nil
  then show ?case by simp
next
  case (Cons c cs)
  show ?case
  proof (cases "match_time_at (c # cs)")
    case None
    with Cons show ?thesis by simp
  next
    case (Some m)
    with Cons.prems have "match_time_at (c # cs) = Some (d, u)" by simp
    then show ?thesis by (rule match_time_at_unit)
  qed
qed

text \<open>The search on a digit run of any length, for amounts beyond the limit of \<^verbatim>\<open>int\<close>.\<close>

lemma digit_run:
  "takeWhile isdigit (replicate n (CHR ''1'') @ CHR '' '' # r) = replicate n (CHR ''1'')"
  "dropWhile isdigit (replicate n (CHR ''1'') @ CHR '' '' # r) = CHR '' '' # r"
  by (induction n) (simp_all add: isdigit_def)

lemma re_search_time_digit_run:
  "re_search_time (''timer in '' @ replicate (Suc n) (CHR ''1'') @ '' hours'') =
     Some (replicate (Suc n) (CHR ''1''), ''hour'')"
proof -
  have "match_time_at (''in '' @ replicate (Suc n) (CHR ''1'') @ '' hours'') =
     Some (replicate (Suc n) (CHR ''1''), ''hour'')"
    using digit_run [of "Suc n" "''hours''"]
    by (simp add: match_time_at_def match_unit_def isspace_def isdigit_def)
  then show ?thesis by (simp add: match_time_at_def)
qed

lemma scheduled_time_of_unit:
  "(if contains ''second'' u then Some (datetime_add c (a * 1000))
    else if contains ''minute'' u then Some (datetime_add c (a * 60000))
    else if contains ''hour'' u then Some (datetime_add c (a * 3600000))
    else None) = map_option (datetime_add c) (duration_ms a u)"
  by (simp add: duration_ms_def del: contains.simps)

lemma duration_ms_units:
  "duration_ms a ''second'' = Some (a * 1000)"
  "duration_ms a ''minute'' = Some (a * 60000)"
  "duration_ms a ''hour'' = Some (a * 3600000)"
  by (simp_all add: duration_ms_def)

lemma datetime_add_ok:
  "now + ms < datetime_limit \<Longrightarrow> datetime_add now ms = Inr (now + ms)"
  by (simp add: datetime_add_def datetime_limit_def timedelta_limit_def)

lemma datetime_add_overflow:
  "datetime_limit \<le> now + ms \<Longrightarrow> datetime_add now ms = Inl OverflowError"
  by (simp add: datetime_add_def)

lemma process_scheduled_command_no_match:
  "re_search p text = None \<Longrightarrow>
   process_scheduled_command p text u s = Inr (s, unsupported_format)"
  by (simp add: process_scheduled_command_def)

lemma process_scheduled_command_bad_int:
  "re_search p text = Some (digits, unit) \<Longrightarrow> py_int p digits = Inl e \<Longrightarrow>
   process_scheduled_command p text u s = Inl e"
  by (simp add: process_scheduled_command_def)

lemma process_scheduled_command_matched:
  assumes "re_search p text = Some (digits, unit)" and "py_int p digits = Inr amount"
    and "duration_ms amount unit = Some d"
  shows "process_scheduled_command p text u s =
     (case datetime_add (clock s) d of
        Inl e \<Rightarrow> Inl e
      | Inr scheduled_time \<Rightarrow>
         (case (keyword_device text, sched_action text) of
            (Some device_name, Some action) \<Rightarrow>
              (let task = \<lparr>task_device = device_name, task_action = action,
                           task_scheduled_time = scheduled_time, task_user_name = u\<rparr>;
                   s1 = save_scheduled_tasks (s\<lparr>scheduled_tasks := scheduled_tasks s @ [task]\<rparr>);
                   reply = ''Scheduled '' @ get_device_user_name device_name @ '' to turn '' @
                           action_display action @ '' at '' @ strftime_hms scheduled_time
               in Inr (log_event p ''scheduled_task_created'' reply (Some u) None s1,
                       alarm_clock @ '' '' @ reply @ ''.''))
          | _ \<Rightarrow> Inr (s, undetermined_reply)))"
  unfolding process_scheduled_command_def assms(1,2) option.case prod.case sum.case Let_def
    scheduled_time_of_unit assms(3) option.map
  by (simp only: option.case)

lemma stored_task_state:
  "scheduled_tasks (log_event p ty m us i (save_scheduled_tasks (s\<lparr>scheduled_tasks := ts\<rparr>))) = ts"
  "\<not> io_fails s \<Longrightarrow>
   scheduled_tasks_file (log_event p ty m us i (save_scheduled_tasks (s\<lparr>scheduled_tasks := ts\<rparr>))) =
     Decoded ts"
proof -
  have l: "scheduled_tasks (log_event p ty m us i x) = scheduled_tasks x"
    "scheduled_tasks_file (log_event p ty m us i x) = scheduled_tasks_file x" for x
    by (rule log_event_frame; simp add: step_defs)+
  have v: "scheduled_tasks (save_scheduled_tasks x) = scheduled_tasks x" for x
    by (rule save_scheduled_tasks_frame) (simp_all add: step_defs)
  show "scheduled_tasks (log_event p ty m us i (save_scheduled_tasks (s\<lparr>scheduled_tasks := ts\<rparr>))) = ts"
    by (simp add: l v)
  assume "\<not> io_fails s"
  then have "\<not> io_fails (s\<lparr>scheduled_tasks := ts\<rparr>)" by (simp add: io_fails_def)
  then show "scheduled_tasks_file
       (log_event p ty m us i (save_scheduled_tasks (s\<lparr>scheduled_tasks := ts\<rparr>))) = Decoded ts"
    by (simp add: l save_scheduled_tasks_ok io_def)
qed

lemma process_home_automation_scheduled:
  "contains ''schedule'' (py_lower p text) \<or> contains ''timer'' (py_lower p text) \<Longrightarrow>
   process_home_automation p text u s = process_scheduled_command p (py_lower p text) u s"
  by (simp add: process_home_automation_def Let_def)

section \<open>The command interpreter\<close>

lemma washing_machine_text:
  "lower ''turn on the washing machine'' = ''turn on the washing machine''"
  "\<not> contains ''schedule'' ''turn on the washing machine''"
  "\<not> contains ''timer'' ''turn on the washing machine''"
  "contains ''washing machine'' ''turn on the washing machine''"
  "contains ''turn on'' ''turn on the washing machine''"
  "\<not> ac_keywords plain_platform ''turn on the washing machine''"
  "any_in [''turn on'', ''turn off'', ''switch on'', ''switch off''] ''turn on the washing machine''"
  "keyword_device ''turn on the washing machine'' = Some ac"
  "contains ''Washing Machine'' (check_mark @ '' Washing Machine turned ON.'')"
  by (simp_all add: string_defs ac_keywords_def any_in_def keyword_device_def plain_platform_def)

lemma turn_on_washing_machine:
  assumes "snd (control_gpio_device washing_machine On (set_status washing_machine On s))"
    and low: "py_lower p ''turn on the washing machine'' = ''turn on the washing machine''"
  shows "case generate_response p ''turn on the washing machine'' 1 ''Alice'' s of
           Inr (s', reply) \<Rightarrow>
             reply = check_mark @ '' Washing Machine turned ON.'' \<and>
             home_devices s' washing_machine = On \<and> home_devices s' ac = home_devices s ac
         | Inl e \<Rightarrow> False"
proof -
  obtain s1 where c: "control_gpio_device washing_machine On (set_status washing_machine On s) = (s1, True)"
    using assms(1)
    by (cases "control_gpio_device washing_machine On (set_status washing_machine On s)") auto
  have h: "home_devices s1 = (home_devices s)(washing_machine := On)"
    using control_gpio_device_frame [of home_devices washing_machine On
        "set_status washing_machine On s"] c
    by (simp add: step_defs)
  have l: "home_devices (log_event p ty m u i x) = home_devices x" for ty m u i x
    by (rule log_event_frame; simp add: step_defs)
  have n: "home_devices (add_pending_notification p m ts x) = home_devices x" for m ts x
    by (rule add_pending_notification_frame; simp add: step_defs)
  have b: "washing_machine_branch p ''turn on the washing machine'' ''Alice'' s =
      (log_event p ''device_control'' ''Washing Machine turned ON'' (Some ''Alice'') None s1,
       check_mark @ '' Washing Machine turned ON.'')"
    unfolding washing_machine_branch_def by (simp only: washing_machine_text simp_thms if_True c prod.case bool.case)
  have "process_home_automation p ''turn on the washing machine'' ''Alice'' s =
      Inr (log_event p ''device_control'' ''Washing Machine turned ON'' (Some ''Alice'') None s1,
           check_mark @ '' Washing Machine turned ON.'')"
    unfolding process_home_automation_def Let_def
    by (simp only: low washing_machine_text simp_thms if_True if_False b)
  then show ?thesis
    unfolding generate_response_def Let_def
    by (simp add: low washing_machine_text check_mark_def l n h del: contains.simps)
qed



lemma log_event_appends:
  "\<not> io_fails s \<Longrightarrow>
   events_log (log_event p ty m u i s) =
     Some ((case events_log s of None \<Rightarrow> [] | Some ls \<Rightarrow> ls) @
           [Entry \<lparr>e_timestamp = isoformat p (clock s), e_event_type = ty, e_message = m,
                    e_user_name = u, e_user_id = i\<rparr>])"
  by (simp add: log_event_def Let_def io_def)

section \<open>The scheduler tick\<close>

lemma execute_success_log:
  assumes "snd (control_gpio_device (task_device t) (task_action t) s)" and "\<not> io_fails s"
  shows "events_log (execute_scheduled_task p t s) =
           Some ((case events_log s of None \<Rightarrow> [] | Some ls \<Rightarrow> ls) @
                 [Entry \<lparr>e_timestamp = isoformat p (clock (execute_scheduled_task p t s)),
                          e_event_type = ''scheduled_task_executed'',
                          e_message =
                            device_notification (task_user_name t) (task_device t)
                              (action_display (task_action t))
                              (clock (execute_scheduled_task p t s)),
                          e_user_name = Some (task_user_name t), e_user_id = None\<rparr>])"
proof -
  obtain s1 where c: "control_gpio_device (task_device t) (task_action t) s = (s1, True)"
    using assms(1) by (cases "control_gpio_device (task_device t) (task_action t) s") auto
  have f: "events_log s1 = events_log s" "io_raises s1 = io_raises s" "io_trace s1 = io_trace s"
    using control_gpio_device_frame [of events_log "task_device t" "task_action t" s]
      control_gpio_device_frame [of io_raises "task_device t" "task_action t" s]
      control_gpio_device_frame [of io_trace "task_device t" "task_action t" s] c
    by (simp_all add: step_defs)
  have l: "clock (log_event p ty m u i x) = clock x" for ty m u i x
    by (rule log_event_frame; simp add: step_defs)
  define s3 where "s3 = (set_status (task_device t) (task_action t) s1)
      \<lparr>notification_queue :=
         notification_queue (set_status (task_device t) (task_action t) s1) @
           [device_notification (task_user_name t) (task_device t)
              (action_display (task_action t)) (clock s1)]\<rparr>"
  have e: "execute_scheduled_task p t s =
      log_event p ''scheduled_task_executed''
        (device_notification (task_user_name t) (task_device t)
           (action_display (task_action t)) (clock s1))
        (Some (task_user_name t)) None s3"
    by (simp add: execute_scheduled_task_def c Let_def set_status_def s3_def)
  have k: "clock s3 = clock s1" "events_log s3 = events_log s" "\<not> io_fails s3"
    using f assms(2) by (simp_all add: s3_def set_status_def io_fails_def)
  show ?thesis
    unfolding e l by (simp add: log_event_appends [OF k(3)] k)
qed

text \<open>
  What a tick does, for every state. The due tasks are executed in list order and removed;
  the others stay, in order. Executing a task calls the actuation port; on success the
  device takes the task's action, one notification naming the task's user goes to the
  internal delivery queue and a \<^verbatim>\<open>scheduled_task_executed\<close> event is logged; on failure the
  devices, the queue and the event log stay as they were. No execution adds a pending
  notification. The tasks file is not opened when nothing is due; when something is due
  and file operations do not fail, it is opened for writing once and holds the remaining
  tasks.
\<close>

lemma scheduler_tick_facts:
  "scheduled_tasks (scheduler_tick p s) =
     filter (\<lambda>t. \<not> task_scheduled_time t \<le> clock s) (scheduled_tasks s) \<and>
   home_devices (scheduler_tick p s) =
     home_devices (foldl (\<lambda>s t. execute_scheduled_task p t s) s (due_tasks s)) \<and>
   notification_queue (scheduler_tick p s) =
     notification_queue (foldl (\<lambda>s t. execute_scheduled_task p t s) s (due_tasks s)) \<and>
   events_log (scheduler_tick p s) =
     events_log (foldl (\<lambda>s t. execute_scheduled_task p t s) s (due_tasks s)) \<and>
   pending_notifications (execute_scheduled_task p t s0) = pending_notifications s0 \<and>
   (snd (control_gpio_device (task_device t) (task_action t) s0) \<longrightarrow>
      home_devices (execute_scheduled_task p t s0) =
        (home_devices s0)(task_device t := task_action t) \<and>
      notification_queue (execute_scheduled_task p t s0) =
        notification_queue s0 @
          [device_notification (task_user_name t) (task_device t)
             (action_display (task_action t)) (clock (execute_scheduled_task p t s0))] \<and>
      (\<not> io_fails s0 \<longrightarrow>
         events_log (execute_scheduled_task p t s0) =
           Some ((case events_log s0 of None \<Rightarrow> [] | Some ls \<Rightarrow> ls) @
                 [Entry \<lparr>e_timestamp = isoformat p (clock (execute_scheduled_task p t s0)),
                          e_event_type = ''scheduled_task_executed'',
                          e_message =
                            device_notification (task_user_name t) (task_device t)
                              (action_display (task_action t))
                              (clock (execute_scheduled_task p t s0)),
                          e_user_name = Some (task_user_name t), e_user_id = None\<rparr>]))) \<and>
   (\<not> snd (control_gpio_device (task_device t) (task_action t) s0) \<longrightarrow>
      home_devices (execute_scheduled_task p t s0) = home_devices s0 \<and>
      notification_queue (execute_scheduled_task p t s0) = notification_queue s0 \<and>
      events_log (execute_scheduled_task p t s0) = events_log s0) \<and>
   (\<not> security_system_active s \<longrightarrow>
      pending_notifications (scheduler_tick p s) = pending_notifications s) \<and>
   (due_tasks s = [] \<longrightarrow>
      task_file_writes (scheduler_tick p s) = task_file_writes s \<and>
      scheduled_tasks_file (scheduler_tick p s) = scheduled_tasks_file s) \<and>
   (due_tasks s \<noteq> [] \<and> (\<forall>k. \<not> io_raises s k) \<longrightarrow>
      task_file_writes (scheduler_tick p s) = task_file_writes s + 1 \<and>
      scheduled_tasks_file (scheduler_tick p s) = Decoded (scheduled_tasks (scheduler_tick p s)))"
proof -
  have "pending_notifications (execute_scheduled_task p t s0) = pending_notifications s0"
    by (rule execute_scheduled_task_frame) (simp_all add: step_defs)
  then show ?thesis
    using tick_tasks [of p s] tick_effects [of p s] execute_success [of t s0 p]
      execute_failure [of t s0 p] tick_pending [of s p] tick_no_due [of s p]
      tick_some_due [of s p] execute_success_log [of t s0 p]
    by blast
qed

section \<open>The request boundary\<close>

lemma add_chat_id_frame:
  assumes "\<And>t x. f (t\<lparr>chat_ids := x\<rparr>) = f t"
    and "\<And>t x. f (t\<lparr>chat_ids_file := x\<rparr>) = f t"
    and "\<And>t. f (io OpenWrite CHAT_IDS_FILE t) = f t"
    and "\<And>ms t. f (sleep ms t) = f t"
  shows "f (add_chat_id i s) = f s"
proof -
  have "f (save_chat_ids t) = f t" for t
    unfolding save_chat_ids_def using assms by (intro retry_write_frame) simp_all
  with assms(1) show ?thesis by (simp add: add_chat_id_def)
qed

lemma retry_write_clock:
  assumes "\<And>t. clock (wr t) = clock t"
  shows "clock s \<le> clock (retry_write n name wr s)"
  using assms
proof (induction n name wr s rule: retry_write.induct)
  case (1 name wr s)
  show ?case by simp
next
  case (2 n name wr s)
  note w = "2.prems"
  show ?case
  proof (cases "io_fails s \<and> n \<noteq> 0")
    case True
    with 2 have "clock (sleep 1000 (io OpenWrite name s)) \<le>
        clock (retry_write (Suc n) name wr s)" by simp
    moreover have "clock s \<le> clock (sleep 1000 (io OpenWrite name s))"
      by (simp add: step_defs)
    ultimately show ?thesis by (rule order_trans [rotated])
  next
    case False
    then show ?thesis by (auto simp add: w step_defs)
  qed
qed

lemma add_chat_id_clock: "clock s \<le> clock (add_chat_id i s)"
proof -
  have "clock t \<le> clock (save_chat_ids t)" for t
    unfolding save_chat_ids_def by (rule retry_write_clock) simp
  from this [of "s\<lparr>chat_ids := insert i (chat_ids s)\<rparr>"] show ?thesis
    by (simp add: add_chat_id_def)
qed

lemma generate_response_raises:
  "process_home_automation p m u s = Inl e \<Longrightarrow> generate_response p m i u s = Inl e"
  by (simp add: generate_response_def)

text \<open>
  When \<^verbatim>\<open>generate_response\<close> raises, \<^verbatim>\<open>send_message\<close> answers with its error response, and
  the scheduled tasks are those before the request.
\<close>

lemma send_message_raises:
  assumes "generate_response p (clip_message m0) i u (add_chat_id i s) = Inl e"
  shows "snd (send_message p m0 u i s) = error_response u"
    and "scheduled_tasks (fst (send_message p m0 u i s)) = scheduled_tasks s"
proof -
  have c: "scheduled_tasks (add_chat_id i s) = scheduled_tasks s"
    by (rule add_chat_id_frame) (simp_all add: step_defs)
  have n: "scheduled_tasks (add_pending_notification p m ts x) = scheduled_tasks x" for m ts x
    by (rule add_pending_notification_frame) (simp_all add: step_defs)
  show "snd (send_message p m0 u i s) = error_response u"
    unfolding send_message_def Let_def assms by (simp del: contains.simps)
  show "scheduled_tasks (fst (send_message p m0 u i s)) = scheduled_tasks s"
    unfolding send_message_def Let_def assms by (simp add: c n del: contains.simps)
qed






section \<open>Claims\<close>

text \<open>
  C1. The claim: when actuation fails on all three attempts, the reply is an error and the
  device status is what it was before the call. The code at the input "turn on the light",
  the light off, the GPIO library bound and raising on every call: the reply is the error
  reply, three calls were made, and the status of the light is now \<open>On\<close>.
\<close>

theorem failed_actuation_changes_status:
  "home_devices broken_gpio_server light = Off \<and>
   (case generate_response plain_platform ''turn on the light'' 1 ''Alice'' broken_gpio_server of
      Inr (s, reply) \<Rightarrow>
        reply = warning_sign @ '' Error turning on light. Please try again.'' \<and>
        gpio_calls s = 3 \<and> home_devices s light = On
    | Inl e \<Rightarrow> False)"
  by (simp add: state_defs run_defs string_defs generate_response_def
      process_home_automation_def light_branch_def ac_keywords_def any_in_def keyword_device_def)

text \<open>
  C2. The claim: a successful on/off command enqueues exactly one pending notification,
  which names the device that was actuated. The code at the input "turn on the washing
  machine" from Alice in simulation mode: the washing machine is switched on, the air
  conditioner stays off, and the one notification enqueued reads "Air Conditioner turned
  ON".
\<close>

theorem washing_machine_notification_names_ac:
  "(case generate_response plain_platform ''turn on the washing machine'' 1 ''Alice''
           simulated_server of
      Inr (s, reply) \<Rightarrow>
        reply = check_mark @ '' Washing Machine turned ON.'' \<and>
        home_devices s washing_machine = On \<and> home_devices s ac = Off \<and>
        map n_text (pending_notifications s) =
          [''[NOTIFICATION] '' @ bell @ '' Alice: Air Conditioner turned ON at 12:34:56'']
    | Inl e \<Rightarrow> False)"
  by (simp add: state_defs run_defs string_defs generate_response_def
      process_home_automation_def washing_machine_branch_def any_in_def keyword_device_def
      str_nat.simps digit_char_def)

text \<open>
  C3. The claim: the scheduling sub-parser derives the device as the command interpreter
  does. The code at the input "Schedule washing machine turn on in 5 seconds": the
  interpreter's tests give the washing machine, the sub-parser's chain gives the air
  conditioner, and the task that is stored switches the air conditioner.
\<close>

theorem scheduled_washing_machine_is_ac:
  "interpreter_device plain_platform ''schedule washing machine turn on in 5 seconds'' = Some washing_machine \<and>
   keyword_device ''schedule washing machine turn on in 5 seconds'' = Some ac \<and>
   (case process_home_automation plain_platform ''Schedule washing machine turn on in 5 seconds''
           ''Alice'' simulated_server of
      Inr (s, reply) \<Rightarrow>
        map task_device (scheduled_tasks s) = [ac] \<and>
        reply = alarm_clock @ '' Scheduled Air Conditioner to turn ON at 12:35:01.''
    | Inl e \<Rightarrow> False)"
  by (simp add: state_defs run_defs string_defs process_home_automation_def
      process_scheduled_command_def match_time_at_def match_unit_def int_of_digits_def digit_value_def
      datetime_add_def timedelta_limit_def datetime_limit_def interpreter_device_def keyword_device_def sched_action_def
      str_nat.simps digit_char_def)

text \<open>
  C4. \<open>process_home_automation\<close> tests the lowered text in a fixed order. A text with
  "schedule" or "timer" goes to the scheduling sub-parser whatever else it contains.
  Otherwise the first test that holds decides: washing machine, then the air-conditioner
  tests, then light, then security, laser or intruder; a text that passes none is no home
  automation command (the empty reply). This holds for every text and every behaviour of
  the library functions \<^verbatim>\<open>lower\<close> and \<^verbatim>\<open>split\<close>. For "turn on the washing machine" from
  Alice, a text that \<^verbatim>\<open>lower\<close> leaves as it is: the washing-machine branch is taken and,
  when actuation succeeds, the reply is the success reply with "Washing Machine" in it,
  the washing machine is on and the status of the air conditioner is untouched; and the
  text, whose words are turn, on, the, washing, machine, passes none of the
  air-conditioner tests.
\<close>

theorem interpreter_matching_order:
  "(contains ''schedule'' (py_lower p msg) \<or> contains ''timer'' (py_lower p msg) \<longrightarrow>
      process_home_automation p msg u s = process_scheduled_command p (py_lower p msg) u s) \<and>
   (\<not> (contains ''schedule'' (py_lower p msg) \<or> contains ''timer'' (py_lower p msg)) \<and>
    contains ''washing machine'' (py_lower p msg) \<longrightarrow>
      process_home_automation p msg u s = Inr (washing_machine_branch p (py_lower p msg) u s)) \<and>
   (\<not> (contains ''schedule'' (py_lower p msg) \<or> contains ''timer'' (py_lower p msg)) \<and>
    \<not> contains ''washing machine'' (py_lower p msg) \<and> ac_keywords p (py_lower p msg) \<longrightarrow>
      process_home_automation p msg u s = Inr (ac_branch p (py_lower p msg) u s)) \<and>
   (\<not> (contains ''schedule'' (py_lower p msg) \<or> contains ''timer'' (py_lower p msg)) \<and>
    \<not> contains ''washing machine'' (py_lower p msg) \<and> \<not> ac_keywords p (py_lower p msg) \<and>
    contains ''light'' (py_lower p msg) \<longrightarrow>
      process_home_automation p msg u s = Inr (light_branch p (py_lower p msg) u s)) \<and>
   (\<not> (contains ''schedule'' (py_lower p msg) \<or> contains ''timer'' (py_lower p msg)) \<and>
    \<not> contains ''washing machine'' (py_lower p msg) \<and> \<not> ac_keywords p (py_lower p msg) \<and>
    \<not> contains ''light'' (py_lower p msg) \<and> security_keywords (py_lower p msg) \<longrightarrow>
      process_home_automation p msg u s = Inr (security_branch p (py_lower p msg) u s)) \<and>
   (\<not> (contains ''schedule'' (py_lower p msg) \<or> contains ''timer'' (py_lower p msg)) \<and>
    \<not> contains ''washing machine'' (py_lower p msg) \<and> \<not> ac_keywords p (py_lower p msg) \<and>
    \<not> contains ''light'' (py_lower p msg) \<and> \<not> security_keywords (py_lower p msg) \<longrightarrow>
      process_home_automation p msg u s = Inr (s, [])) \<and>
   (py_lower p ''turn on the washing machine'' = ''turn on the washing machine'' \<and>
    snd (control_gpio_device washing_machine On (set_status washing_machine On s)) \<longrightarrow>
      process_home_automation p ''turn on the washing machine'' ''Alice'' s =
        Inr (washing_machine_branch p ''turn on the washing machine'' ''Alice'' s) \<and>
      (case generate_response p ''turn on the washing machine'' 1 ''Alice'' s of
         Inr (s', reply) \<Rightarrow>
           reply = check_mark @ '' Washing Machine turned ON.'' \<and>
           contains ''Washing Machine'' reply \<and>
           home_devices s' washing_machine = On \<and> home_devices s' ac = home_devices s ac
       | Inl e \<Rightarrow> False)) \<and>
   (py_split p ''turn on the washing machine'' = [''turn'', ''on'', ''the'', ''washing'', ''machine''] \<longrightarrow>
      \<not> ac_keywords p ''turn on the washing machine'')"
proof -
  have order:
    "contains ''schedule'' (py_lower p msg) \<or> contains ''timer'' (py_lower p msg) \<longrightarrow>
      process_home_automation p msg u s = process_scheduled_command p (py_lower p msg) u s"
    "\<not> (contains ''schedule'' (py_lower p msg) \<or> contains ''timer'' (py_lower p msg)) \<and>
    contains ''washing machine'' (py_lower p msg) \<longrightarrow>
      process_home_automation p msg u s = Inr (washing_machine_branch p (py_lower p msg) u s)"
    "\<not> (contains ''schedule'' (py_lower p msg) \<or> contains ''timer'' (py_lower p msg)) \<and>
    \<not> contains ''washing machine'' (py_lower p msg) \<and> ac_keywords p (py_lower p msg) \<longrightarrow>
      process_home_automation p msg u s = Inr (ac_branch p (py_lower p msg) u s)"
    "\<not> (contains ''schedule'' (py_lower p msg) \<or> contains ''timer'' (py_lower p msg)) \<and>
    \<not> contains ''washing machine'' (py_lower p msg) \<and> \<not> ac_keywords p (py_lower p msg) \<and>
    contains ''light'' (py_lower p msg) \<longrightarrow>
      process_home_automation p msg u s = Inr (light_branch p (py_lower p msg) u s)"
    "\<not> (contains ''schedule'' (py_lower p msg) \<or> contains ''timer'' (py_lower p msg)) \<and>
    \<not> contains ''washing machine'' (py_lower p msg) \<and> \<not> ac_keywords p (py_lower p msg) \<and>
    \<not> contains ''light'' (py_lower p msg) \<and> security_keywords (py_lower p msg) \<longrightarrow>
      process_home_automation p msg u s = Inr (security_branch p (py_lower p msg) u s)"
    "\<not> (contains ''schedule'' (py_lower p msg) \<or> contains ''timer'' (py_lower p msg)) \<and>
    \<not> contains ''washing machine'' (py_lower p msg) \<and> \<not> ac_keywords p (py_lower p msg) \<and>
    \<not> contains ''light'' (py_lower p msg) \<and> \<not> security_keywords (py_lower p msg) \<longrightarrow>
      process_home_automation p msg u s = Inr (s, [])"
    by (simp_all add: process_home_automation_def Let_def del: contains.simps)
  have example:
    "py_lower p ''turn on the washing machine'' = ''turn on the washing machine'' \<and>
    snd (control_gpio_device washing_machine On (set_status washing_machine On s)) \<longrightarrow>
      process_home_automation p ''turn on the washing machine'' ''Alice'' s =
        Inr (washing_machine_branch p ''turn on the washing machine'' ''Alice'' s) \<and>
      (case generate_response p ''turn on the washing machine'' 1 ''Alice'' s of
         Inr (s', reply) \<Rightarrow>
           reply = check_mark @ '' Washing Machine turned ON.'' \<and>
           contains ''Washing Machine'' reply \<and>
           home_devices s' washing_machine = On \<and> home_devices s' ac = home_devices s ac
       | Inl e \<Rightarrow> False)"
  proof (intro impI conjI)
    assume a: "py_lower p ''turn on the washing machine'' = ''turn on the washing machine'' \<and>
    snd (control_gpio_device washing_machine On (set_status washing_machine On s))"
    then have low: "py_lower p ''turn on the washing machine'' = ''turn on the washing machine''" by (rule conjunct1)
    from a have g: "snd (control_gpio_device washing_machine On (set_status washing_machine On s))"
      by (rule conjunct2)
    show "process_home_automation p ''turn on the washing machine'' ''Alice'' s =
        Inr (washing_machine_branch p ''turn on the washing machine'' ''Alice'' s)"
      unfolding process_home_automation_def Let_def
      by (simp only: low washing_machine_text simp_thms if_True if_False)
    from turn_on_washing_machine [OF g low] washing_machine_text(9)
    show "case generate_response p ''turn on the washing machine'' 1 ''Alice'' s of
         Inr (s', reply) \<Rightarrow>
           reply = check_mark @ '' Washing Machine turned ON.'' \<and>
           contains ''Washing Machine'' reply \<and>
           home_devices s' washing_machine = On \<and> home_devices s' ac = home_devices s ac
       | Inl e \<Rightarrow> False"
      by (auto split: sum.splits simp del: contains.simps)
  qed
  have noac: "py_split p ''turn on the washing machine'' = [''turn'', ''on'', ''the'', ''washing'', ''machine''] \<longrightarrow>
      \<not> ac_keywords p ''turn on the washing machine''"
    by (simp add: ac_keywords_def startswith_def)
  from order example noac show ?thesis by blast
qed

theorem interpreter_matching_order_witness:
  "contains ''timer'' (py_lower plain_platform ''Timer: turn on the AC light'') \<and>
   process_home_automation plain_platform ''Timer: turn on the AC light'' ''Alice'' simulated_server =
     Inr (simulated_server, unsupported_format) \<and>
   \<not> (contains ''schedule'' (py_lower plain_platform ''Is the washing machine or the AC light on'') \<or>
      contains ''timer'' (py_lower plain_platform ''Is the washing machine or the AC light on'')) \<and>
   contains ''washing machine'' (py_lower plain_platform ''Is the washing machine or the AC light on'') \<and>
   ac_keywords plain_platform (py_lower plain_platform ''Is the washing machine or the AC light on'') \<and>
   process_home_automation plain_platform ''Is the washing machine or the AC light on'' ''Alice''
     simulated_server = Inr (simulated_server, basket @ '' Washing Machine is currently off.'') \<and>
   \<not> (contains ''schedule'' (py_lower plain_platform ''AC or light'') \<or> contains ''timer'' (py_lower plain_platform ''AC or light'')) \<and>
   \<not> contains ''washing machine'' (py_lower plain_platform ''AC or light'') \<and>
   ac_keywords plain_platform (py_lower plain_platform ''AC or light'') \<and>
   contains ''light'' (py_lower plain_platform ''AC or light'') \<and>
   process_home_automation plain_platform ''AC or light'' ''Alice'' simulated_server =
     Inr (simulated_server, snowflake @ '' Air Conditioner is currently off.'') \<and>
   \<not> (contains ''schedule'' (py_lower plain_platform ''security light'') \<or> contains ''timer'' (py_lower plain_platform ''security light'')) \<and>
   \<not> contains ''washing machine'' (py_lower plain_platform ''security light'') \<and>
   \<not> ac_keywords plain_platform (py_lower plain_platform ''security light'') \<and>
   contains ''light'' (py_lower plain_platform ''security light'') \<and>
   security_keywords (py_lower plain_platform ''security light'') \<and>
   process_home_automation plain_platform ''security light'' ''Alice'' simulated_server =
     Inr (simulated_server, bulb @ '' Light is currently off.'') \<and>
   \<not> (contains ''schedule'' (py_lower plain_platform ''Laser'') \<or> contains ''timer'' (py_lower plain_platform ''Laser'')) \<and>
   \<not> contains ''washing machine'' (py_lower plain_platform ''Laser'') \<and>
   \<not> ac_keywords plain_platform (py_lower plain_platform ''Laser'') \<and>
   \<not> contains ''light'' (py_lower plain_platform ''Laser'') \<and>
   security_keywords (py_lower plain_platform ''Laser'') \<and>
   process_home_automation plain_platform ''Laser'' ''Alice'' simulated_server =
     Inr (simulated_server, shield @ '' Home Security System is currently INACTIVE.'') \<and>
   \<not> (contains ''schedule'' (py_lower plain_platform ''Good morning'') \<or> contains ''timer'' (py_lower plain_platform ''Good morning'')) \<and>
   \<not> contains ''washing machine'' (py_lower plain_platform ''Good morning'') \<and>
   \<not> ac_keywords plain_platform (py_lower plain_platform ''Good morning'') \<and>
   \<not> contains ''light'' (py_lower plain_platform ''Good morning'') \<and>
   \<not> security_keywords (py_lower plain_platform ''Good morning'') \<and>
   process_home_automation plain_platform ''Good morning'' ''Alice'' simulated_server =
     Inr (simulated_server, []) \<and>
   py_lower plain_platform ''turn on the washing machine'' = ''turn on the washing machine'' \<and>
   snd (control_gpio_device washing_machine On (set_status washing_machine On simulated_server)) \<and>
   (case generate_response plain_platform ''turn on the washing machine'' 1 ''Alice''
           simulated_server of
      Inr (s', reply) \<Rightarrow>
        reply = check_mark @ '' Washing Machine turned ON.'' \<and>
        contains ''Washing Machine'' reply \<and>
        home_devices s' washing_machine = On \<and> home_devices s' ac = Off
    | Inl e \<Rightarrow> False) \<and>
   py_split plain_platform ''turn on the washing machine'' = [''turn'', ''on'', ''the'', ''washing'', ''machine''] \<and>
   \<not> ac_keywords plain_platform ''turn on the washing machine''"
proof -
  have t: "contains ''timer'' (py_lower plain_platform ''Timer: turn on the AC light'')"
    "re_search plain_platform (py_lower plain_platform ''Timer: turn on the AC light'') = None"
    by (simp_all add: plain_platform_def string_defs match_time_at_def)
  from interpreter_matching_order [of plain_platform "''Timer: turn on the AC light''"
      "''Alice''" simulated_server] t(1)
  have "process_home_automation plain_platform ''Timer: turn on the AC light'' ''Alice''
      simulated_server =
      process_scheduled_command plain_platform (py_lower plain_platform ''Timer: turn on the AC light'') ''Alice''
        simulated_server"
    by blast
  with t(2) have a: "process_home_automation plain_platform ''Timer: turn on the AC light''
      ''Alice'' simulated_server = Inr (simulated_server, unsupported_format)"
    by (simp only: process_scheduled_command_no_match)
  have g: "py_lower plain_platform ''turn on the washing machine'' = ''turn on the washing machine''"
    "snd (control_gpio_device washing_machine On
      (set_status washing_machine On simulated_server))"
    "py_split plain_platform ''turn on the washing machine'' = [''turn'', ''on'', ''the'', ''washing'', ''machine'']"
    by (simp_all add: state_defs run_defs string_defs)
  from interpreter_matching_order [of plain_platform "''x''" "''Alice''" simulated_server] g
  have e: "case generate_response plain_platform ''turn on the washing machine'' 1 ''Alice''
           simulated_server of
      Inr (s', reply) \<Rightarrow>
        reply = check_mark @ '' Washing Machine turned ON.'' \<and>
        contains ''Washing Machine'' reply \<and>
        home_devices s' washing_machine = On \<and>
        home_devices s' ac = home_devices simulated_server ac
    | Inl e \<Rightarrow> False"
    and na: "\<not> ac_keywords plain_platform ''turn on the washing machine''"
    by blast+
  have "home_devices simulated_server ac = Off" by (simp add: state_defs)
  with e have e': "case generate_response plain_platform ''turn on the washing machine'' 1 ''Alice''
           simulated_server of
      Inr (s', reply) \<Rightarrow>
        reply = check_mark @ '' Washing Machine turned ON.'' \<and>
        contains ''Washing Machine'' reply \<and>
        home_devices s' washing_machine = On \<and> home_devices s' ac = Off
    | Inl e \<Rightarrow> False"
    by (simp only:)
  have b:
    "\<not> (contains ''schedule'' (py_lower plain_platform ''Is the washing machine or the AC light on'') \<or>
      contains ''timer'' (py_lower plain_platform ''Is the washing machine or the AC light on''))"
    "contains ''washing machine'' (py_lower plain_platform ''Is the washing machine or the AC light on'')"
    "ac_keywords plain_platform (py_lower plain_platform ''Is the washing machine or the AC light on'')"
    "\<not> (contains ''schedule'' (py_lower plain_platform ''AC or light'') \<or> contains ''timer'' (py_lower plain_platform ''AC or light''))"
    "\<not> contains ''washing machine'' (py_lower plain_platform ''AC or light'')"
    "ac_keywords plain_platform (py_lower plain_platform ''AC or light'')"
    "contains ''light'' (py_lower plain_platform ''AC or light'')"
    "\<not> (contains ''schedule'' (py_lower plain_platform ''security light'') \<or> contains ''timer'' (py_lower plain_platform ''security light''))"
    "\<not> contains ''washing machine'' (py_lower plain_platform ''security light'')"
    "\<not> ac_keywords plain_platform (py_lower plain_platform ''security light'')"
    "contains ''light'' (py_lower plain_platform ''security light'')"
    "security_keywords (py_lower plain_platform ''security light'')"
    "\<not> (contains ''schedule'' (py_lower plain_platform ''Laser'') \<or> contains ''timer'' (py_lower plain_platform ''Laser''))"
    "\<not> contains ''washing machine'' (py_lower plain_platform ''Laser'')"
    "\<not> ac_keywords plain_platform (py_lower plain_platform ''Laser'')"
    "\<not> contains ''light'' (py_lower plain_platform ''Laser'')"
    "security_keywords (py_lower plain_platform ''Laser'')"
    "\<not> (contains ''schedule'' (py_lower plain_platform ''Good morning'') \<or> contains ''timer'' (py_lower plain_platform ''Good morning''))"
    "\<not> contains ''washing machine'' (py_lower plain_platform ''Good morning'')"
    "\<not> ac_keywords plain_platform (py_lower plain_platform ''Good morning'')"
    "\<not> contains ''light'' (py_lower plain_platform ''Good morning'')"
    "\<not> security_keywords (py_lower plain_platform ''Good morning'')"
    by (simp_all add: plain_platform_def string_defs ac_keywords_def security_keywords_def)
  have c:
    "process_home_automation plain_platform ''Is the washing machine or the AC light on'' ''Alice''
     simulated_server = Inr (simulated_server, basket @ '' Washing Machine is currently off.'')"
    "process_home_automation plain_platform ''AC or light'' ''Alice'' simulated_server =
     Inr (simulated_server, snowflake @ '' Air Conditioner is currently off.'')"
    "process_home_automation plain_platform ''security light'' ''Alice'' simulated_server =
     Inr (simulated_server, bulb @ '' Light is currently off.'')"
    "process_home_automation plain_platform ''Laser'' ''Alice'' simulated_server =
     Inr (simulated_server, shield @ '' Home Security System is currently INACTIVE.'')"
    "process_home_automation plain_platform ''Good morning'' ''Alice'' simulated_server =
     Inr (simulated_server, [])"
    by (simp_all add: state_defs run_defs string_defs process_home_automation_def
        washing_machine_branch_def ac_branch_def light_branch_def security_branch_def
        ac_keywords_def security_keywords_def initialize_keywords_def terminate_keywords_def)
  from t(1) a b c g e' na show ?thesis by blast
qed

text \<open>
  C5. After every call of \<open>add_pending_notification\<close> the pending collection has at most
  100 entries, and it is the last 100 (all, when fewer) of the old collection followed by
  the new notification: eviction drops from the front of the insertion order, whatever
  the timestamps are.
\<close>

theorem add_pending_notification_cap:
  "length (pending_notifications (add_pending_notification p txt ts s)) \<le> 100 \<and>
   pending_notifications (add_pending_notification p txt ts s) =
     drop (length (pending_notifications s) + 1 - 100)
       (pending_notifications s @
          [new_notification p txt (case ts of None \<Rightarrow> isoformat p (clock s) | Some t \<Rightarrow> t)])"
proof -
  have "pending_notifications (save_pending_notifications t) = pending_notifications t" for t
    by (rule save_pending_notifications_frame) (simp_all add: step_defs)
  then show ?thesis
    by (simp add: add_pending_notification_def Let_def)
qed

text \<open>
  C6. The claim: a due task is executed through the notification path of an interactive
  on/off command. The code: \<open>execute_scheduled_task\<close> never changes the pending
  notifications, for any task and any state. At a tick in simulation mode with Alice's
  task "light on" due, the light is switched on, the task is removed and the tasks file is
  written once, the notification is put on the internal queue, and the pending
  notifications, which are what clients read, stay empty. The interactive command "turn on
  the light" from Alice in the same state leaves the same notification among the pending
  notifications.
\<close>

theorem scheduled_execution_adds_no_pending_notification:
  "pending_notifications (execute_scheduled_task p t s) = pending_notifications s \<and>
   due_tasks (simulated_server\<lparr>scheduled_tasks := [light_on_task]\<rparr>) = [light_on_task] \<and>
   home_devices
     (scheduler_tick plain_platform (simulated_server\<lparr>scheduled_tasks := [light_on_task]\<rparr>))
     light = On \<and>
   scheduled_tasks
     (scheduler_tick plain_platform (simulated_server\<lparr>scheduled_tasks := [light_on_task]\<rparr>)) = [] \<and>
   task_file_writes
     (scheduler_tick plain_platform (simulated_server\<lparr>scheduled_tasks := [light_on_task]\<rparr>)) = 1 \<and>
   notification_queue
     (scheduler_tick plain_platform (simulated_server\<lparr>scheduled_tasks := [light_on_task]\<rparr>)) =
     [''[NOTIFICATION] '' @ bell @ '' Alice: Light turned ON at 12:34:56''] \<and>
   pending_notifications
     (scheduler_tick plain_platform (simulated_server\<lparr>scheduled_tasks := [light_on_task]\<rparr>)) = [] \<and>
   (case generate_response plain_platform ''turn on the light'' 1 ''Alice'' simulated_server of
      Inr (s', reply) \<Rightarrow>
        reply = check_mark @ '' Light turned ON.'' \<and>
        home_devices s' light = On \<and>
        map n_text (pending_notifications s') =
          [''[NOTIFICATION] '' @ bell @ '' Alice: Light turned ON at 12:34:56''] \<and>
        notification_queue s' = []
    | Inl e \<Rightarrow> False)"
proof -
  have a: "pending_notifications (execute_scheduled_task p t s) = pending_notifications s"
    by (rule execute_scheduled_task_frame) (simp_all add: step_defs)
  have b: "due_tasks (simulated_server\<lparr>scheduled_tasks := [light_on_task]\<rparr>) = [light_on_task]"
    "home_devices
       (scheduler_tick plain_platform (simulated_server\<lparr>scheduled_tasks := [light_on_task]\<rparr>))
       light = On"
    "scheduled_tasks
       (scheduler_tick plain_platform (simulated_server\<lparr>scheduled_tasks := [light_on_task]\<rparr>)) = []"
    "task_file_writes
       (scheduler_tick plain_platform (simulated_server\<lparr>scheduled_tasks := [light_on_task]\<rparr>)) = 1"
    "notification_queue
       (scheduler_tick plain_platform (simulated_server\<lparr>scheduled_tasks := [light_on_task]\<rparr>)) =
       [''[NOTIFICATION] '' @ bell @ '' Alice: Light turned ON at 12:34:56'']"
    "pending_notifications
       (scheduler_tick plain_platform (simulated_server\<lparr>scheduled_tasks := [light_on_task]\<rparr>)) = []"
    by (simp_all add: state_defs run_defs due_tasks_def task_file_writes_def str_nat.simps
        digit_char_def)
  have c: "case generate_response plain_platform ''turn on the light'' 1 ''Alice'' simulated_server of
      Inr (s', reply) \<Rightarrow>
        reply = check_mark @ '' Light turned ON.'' \<and>
        home_devices s' light = On \<and>
        map n_text (pending_notifications s') =
          [''[NOTIFICATION] '' @ bell @ '' Alice: Light turned ON at 12:34:56''] \<and>
        notification_queue s' = []
    | Inl e \<Rightarrow> False"
    by (simp add: state_defs run_defs string_defs generate_response_def
        process_home_automation_def light_branch_def ac_keywords_def any_in_def keyword_device_def
        str_nat.simps digit_char_def)
  from a b c show ?thesis by blast
qed

text \<open>
  C9, as the code has it. For a command whose lowered text has "schedule" or "timer" in
  it: when the search of the pattern finds no match, the fixed unsupported-format reply is
  returned and the state is unchanged. When it matches, \<^verbatim>\<open>int\<close> reads the amount, the due
  time \<open>now + duration\<close> is before the end of year 9999 and a device and an action are
  found, exactly one task with that due time is appended, the reply echoes the due time as
  HH:MM:SS, and the tasks file holds the new list when the write does not fail. When it
  matches and the due time passes the end of year 9999, the date arithmetic raises
  \<open>OverflowError\<close>, which leaves the function, and \<open>send_message\<close> answers with its error
  response, the scheduled tasks being as before. When \<^verbatim>\<open>int\<close> raises, its exception leaves
  the function. The duration of an amount is that many seconds, minutes or hours.
\<close>

theorem schedule_command_contract:
  "contains ''schedule'' (py_lower p msg) \<or> contains ''timer'' (py_lower p msg) \<Longrightarrow>
   (re_search p (py_lower p msg) = None \<longrightarrow>
      process_home_automation p msg u s = Inr (s, unsupported_format)) \<and>
   (re_search p (py_lower p msg) = Some (digits, unit) \<and> py_int p digits = Inr amount \<and>
    duration_ms amount unit = Some d \<and> clock s + d < datetime_limit \<and>
    keyword_device (py_lower p msg) = Some dev \<and> sched_action (py_lower p msg) = Some a \<longrightarrow>
      (case process_home_automation p msg u s of
         Inr (s', reply) \<Rightarrow>
           scheduled_tasks s' =
             scheduled_tasks s @
               [\<lparr>task_device = dev, task_action = a, task_scheduled_time = clock s + d,
                 task_user_name = u\<rparr>] \<and>
           reply = alarm_clock @ '' Scheduled '' @ get_device_user_name dev @ '' to turn '' @
                   action_display a @ '' at '' @ strftime_hms (clock s + d) @ ''.'' \<and>
           (\<not> io_fails s \<longrightarrow> scheduled_tasks_file s' = Decoded (scheduled_tasks s'))
       | Inl e \<Rightarrow> False)) \<and>
   (re_search p (py_lower p msg) = Some (digits, unit) \<and> py_int p digits = Inr amount \<and>
    duration_ms amount unit = Some d \<and> datetime_limit \<le> clock s + d \<longrightarrow>
      process_home_automation p msg u s = Inl OverflowError \<and>
      (clip_message msg0 = msg \<longrightarrow>
         snd (send_message p msg0 u i s) = error_response u \<and>
         scheduled_tasks (fst (send_message p msg0 u i s)) = scheduled_tasks s)) \<and>
   (re_search p (py_lower p msg) = Some (digits, unit) \<and> py_int p digits = Inl err \<longrightarrow>
      process_home_automation p msg u s = Inl err) \<and>
   duration_ms amount ''second'' = Some (amount * 1000) \<and>
   duration_ms amount ''minute'' = Some (amount * 60000) \<and>
   duration_ms amount ''hour'' = Some (amount * 3600000)"
proof -
  assume sched: "contains ''schedule'' (py_lower p msg) \<or> contains ''timer'' (py_lower p msg)"
  note pha = process_home_automation_scheduled [OF sched, of u]
  have raises: "clip_message msg0 = msg \<longrightarrow>
         snd (send_message p msg0 u i s) = error_response u \<and>
         scheduled_tasks (fst (send_message p msg0 u i s)) = scheduled_tasks s"
    if r: "\<And>t. process_home_automation p msg u t = Inl e \<or> clock t < clock s" for e
  proof
    assume m: "clip_message msg0 = msg"
    have "\<not> clock (add_chat_id i s) < clock s"
      using add_chat_id_clock [of s i] by simp
    with r [of "add_chat_id i s"]
    have "process_home_automation p msg u (add_chat_id i s) = Inl e" by blast
    then have "generate_response p (clip_message msg0) i u (add_chat_id i s) = Inl e"
      unfolding m by (rule generate_response_raises)
    then show "snd (send_message p msg0 u i s) = error_response u \<and>
         scheduled_tasks (fst (send_message p msg0 u i s)) = scheduled_tasks s"
      by (simp only: send_message_raises simp_thms)
  qed
  have 1: "re_search p (py_lower p msg) = None \<longrightarrow>
      process_home_automation p msg u s = Inr (s, unsupported_format)"
    unfolding pha by (simp add: process_scheduled_command_no_match)
  have 2: "re_search p (py_lower p msg) = Some (digits, unit) \<and> py_int p digits = Inr amount \<and>
    duration_ms amount unit = Some d \<and> clock s + d < datetime_limit \<and>
    keyword_device (py_lower p msg) = Some dev \<and> sched_action (py_lower p msg) = Some a \<longrightarrow>
      (case process_home_automation p msg u s of
         Inr (s', reply) \<Rightarrow>
           scheduled_tasks s' =
             scheduled_tasks s @
               [\<lparr>task_device = dev, task_action = a, task_scheduled_time = clock s + d,
                 task_user_name = u\<rparr>] \<and>
           reply = alarm_clock @ '' Scheduled '' @ get_device_user_name dev @ '' to turn '' @
                   action_display a @ '' at '' @ strftime_hms (clock s + d) @ ''.'' \<and>
           (\<not> io_fails s \<longrightarrow> scheduled_tasks_file s' = Decoded (scheduled_tasks s'))
       | Inl e \<Rightarrow> False)"
  proof
    assume a: "re_search p (py_lower p msg) = Some (digits, unit) \<and> py_int p digits = Inr amount \<and>
    duration_ms amount unit = Some d \<and> clock s + d < datetime_limit \<and>
    keyword_device (py_lower p msg) = Some dev \<and> sched_action (py_lower p msg) = Some a"
    then have m: "re_search p (py_lower p msg) = Some (digits, unit)" "py_int p digits = Inr amount"
      "duration_ms amount unit = Some d" by blast+
    from a have k: "keyword_device (py_lower p msg) = Some dev" "sched_action (py_lower p msg) = Some a"
      "datetime_add (clock s) d = Inr (clock s + d)"
      by (simp_all add: datetime_add_ok)
    show "case process_home_automation p msg u s of
         Inr (s', reply) \<Rightarrow>
           scheduled_tasks s' =
             scheduled_tasks s @
               [\<lparr>task_device = dev, task_action = a, task_scheduled_time = clock s + d,
                 task_user_name = u\<rparr>] \<and>
           reply = alarm_clock @ '' Scheduled '' @ get_device_user_name dev @ '' to turn '' @
                   action_display a @ '' at '' @ strftime_hms (clock s + d) @ ''.'' \<and>
           (\<not> io_fails s \<longrightarrow> scheduled_tasks_file s' = Decoded (scheduled_tasks s'))
       | Inl e \<Rightarrow> False"
      unfolding pha process_scheduled_command_matched [OF m] k
      by (simp add: Let_def stored_task_state)
  qed
  have 3: "re_search p (py_lower p msg) = Some (digits, unit) \<and> py_int p digits = Inr amount \<and>
    duration_ms amount unit = Some d \<and> datetime_limit \<le> clock s + d \<longrightarrow>
      process_home_automation p msg u s = Inl OverflowError \<and>
      (clip_message msg0 = msg \<longrightarrow>
         snd (send_message p msg0 u i s) = error_response u \<and>
         scheduled_tasks (fst (send_message p msg0 u i s)) = scheduled_tasks s)"
  proof (intro impI conjI)
    assume a: "re_search p (py_lower p msg) = Some (digits, unit) \<and> py_int p digits = Inr amount \<and>
    duration_ms amount unit = Some d \<and> datetime_limit \<le> clock s + d"
    then have m: "re_search p (py_lower p msg) = Some (digits, unit)" "py_int p digits = Inr amount"
      "duration_ms amount unit = Some d" by blast+
    have o: "process_home_automation p msg u t = Inl OverflowError \<or> clock t < clock s" for t
    proof (cases "clock t < clock s")
      case False
      with a have "datetime_limit \<le> clock t + d" by simp
      then have "datetime_add (clock t) d = Inl OverflowError" by (rule datetime_add_overflow)
      then show ?thesis
        unfolding pha process_scheduled_command_matched [OF m] by simp
    qed simp
    from o [of s] show "process_home_automation p msg u s = Inl OverflowError" by simp
    from raises [of OverflowError, OF o]
    show "clip_message msg0 = msg \<Longrightarrow> snd (send_message p msg0 u i s) = error_response u"
      and "clip_message msg0 = msg \<Longrightarrow>
        scheduled_tasks (fst (send_message p msg0 u i s)) = scheduled_tasks s"
      by blast+
  qed
  have 4: "re_search p (py_lower p msg) = Some (digits, unit) \<and> py_int p digits = Inl err \<longrightarrow>
      process_home_automation p msg u s = Inl err"
    unfolding pha by (simp add: process_scheduled_command_bad_int)
  have 5: "duration_ms amount ''second'' = Some (amount * 1000) \<and>
   duration_ms amount ''minute'' = Some (amount * 60000) \<and>
   duration_ms amount ''hour'' = Some (amount * 3600000)"
    by (simp only: duration_ms_units simp_thms)
  from 1 2 3 4 5 show ?thesis by blast
qed

theorem schedule_command_contract_witness:
  "contains ''timer'' (py_lower plain_platform ''Set a timer for the light'') \<and>
   re_search plain_platform (py_lower plain_platform ''Set a timer for the light'') = None \<and>
   process_home_automation plain_platform ''Set a timer for the light'' ''Alice'' simulated_server =
     Inr (simulated_server, unsupported_format) \<and>
   contains ''schedule'' (py_lower plain_platform ''Schedule light turn on in 5 minutes'') \<and>
   re_search plain_platform (py_lower plain_platform ''Schedule light turn on in 5 minutes'') = Some (''5'', ''minute'') \<and>
   py_int plain_platform ''5'' = Inr 5 \<and>
   duration_ms 5 ''minute'' = Some 300000 \<and>
   keyword_device (py_lower plain_platform ''Schedule light turn on in 5 minutes'') = Some light \<and>
   sched_action (py_lower plain_platform ''Schedule light turn on in 5 minutes'') = Some On \<and>
   contains ''schedule'' (py_lower plain_platform ''schedule light turn on in 100000000 hours'') \<and>
   re_search plain_platform (py_lower plain_platform ''schedule light turn on in 100000000 hours'') =
     Some (''100000000'', ''hour'') \<and>
   py_int plain_platform ''100000000'' = Inr 100000000 \<and>
   duration_ms 100000000 ''hour'' = Some 360000000000000 \<and>
   clip_message ''schedule light turn on in 100000000 hours'' =
     ''schedule light turn on in 100000000 hours'' \<and>
   clock simulated_server + 300000 < datetime_limit \<and>
   \<not> io_fails simulated_server \<and>
   datetime_limit \<le> clock simulated_server + 360000000000000 \<and>
   (case process_home_automation plain_platform ''Schedule light turn on in 5 minutes'' ''Alice''
           simulated_server of
      Inr (s', reply) \<Rightarrow>
        scheduled_tasks s' =
          [\<lparr>task_device = light, task_action = On, task_scheduled_time = noon + 300000,
            task_user_name = ''Alice''\<rparr>] \<and>
        reply = alarm_clock @ '' Scheduled Light to turn ON at 12:39:56.'' \<and>
        scheduled_tasks_file s' = Decoded (scheduled_tasks s')
    | Inl e \<Rightarrow> False) \<and>
   process_home_automation plain_platform ''schedule light turn on in 100000000 hours'' ''Alice''
     simulated_server = Inl OverflowError \<and>
   snd (send_message plain_platform ''schedule light turn on in 100000000 hours'' ''Alice'' 1
     simulated_server) = error_response ''Alice'' \<and>
   scheduled_tasks (fst (send_message plain_platform ''schedule light turn on in 100000000 hours''
     ''Alice'' 1 simulated_server)) = [] \<and>
   contains ''timer''
     (py_lower plain_platform (''timer in '' @ replicate 4301 (CHR ''1'') @ '' hours'')) \<and>
   re_search plain_platform
     (py_lower plain_platform (''timer in '' @ replicate 4301 (CHR ''1'') @ '' hours'')) =
     Some (replicate 4301 (CHR ''1''), ''hour'') \<and>
   py_int plain_platform (replicate 4301 (CHR ''1'')) = Inl ValueError \<and>
   process_home_automation plain_platform (''timer in '' @ replicate 4301 (CHR ''1'') @ '' hours'')
     ''Alice'' simulated_server = Inl ValueError"
proof -
  have t:
    "contains ''timer'' (py_lower plain_platform ''Set a timer for the light'')"
    "re_search plain_platform (py_lower plain_platform ''Set a timer for the light'') = None"
    by (simp_all add: plain_platform_def string_defs match_time_at_def)
  from schedule_command_contract [of plain_platform "''Set a timer for the light''" "''Alice''"
      simulated_server] t
  have n:
    "process_home_automation plain_platform ''Set a timer for the light'' ''Alice'' simulated_server =
     Inr (simulated_server, unsupported_format)"
    by blast
  have a:
    "contains ''schedule'' (py_lower plain_platform ''Schedule light turn on in 5 minutes'')"
    "re_search plain_platform (py_lower plain_platform ''Schedule light turn on in 5 minutes'') = Some (''5'', ''minute'')"
    "py_int plain_platform ''5'' = Inr 5"
    "duration_ms 5 ''minute'' = Some 300000"
    "keyword_device (py_lower plain_platform ''Schedule light turn on in 5 minutes'') = Some light"
    "sched_action (py_lower plain_platform ''Schedule light turn on in 5 minutes'') = Some On"
    "contains ''schedule'' (py_lower plain_platform ''schedule light turn on in 100000000 hours'')"
    "re_search plain_platform (py_lower plain_platform ''schedule light turn on in 100000000 hours'') =
     Some (''100000000'', ''hour'')"
    "py_int plain_platform ''100000000'' = Inr 100000000"
    "duration_ms 100000000 ''hour'' = Some 360000000000000"
    "clip_message ''schedule light turn on in 100000000 hours'' =
     ''schedule light turn on in 100000000 hours''"
    by (simp_all add: plain_platform_def string_defs match_time_at_def match_unit_def
        keyword_device_def sched_action_def int_of_digits_def digit_value_def duration_ms_def
        clip_message_def py_len_def is_continuation_def)
  have b:
    "clock simulated_server + 300000 < datetime_limit"
    "\<not> io_fails simulated_server"
    "datetime_limit \<le> clock simulated_server + 360000000000000"
    by (simp_all add: state_defs run_defs datetime_limit_def)
  have c:
    "(case process_home_automation plain_platform ''Schedule light turn on in 5 minutes'' ''Alice''
           simulated_server of
      Inr (s', reply) \<Rightarrow>
        scheduled_tasks s' =
          [\<lparr>task_device = light, task_action = On, task_scheduled_time = noon + 300000,
            task_user_name = ''Alice''\<rparr>] \<and>
        reply = alarm_clock @ '' Scheduled Light to turn ON at 12:39:56.'' \<and>
        scheduled_tasks_file s' = Decoded (scheduled_tasks s')
    | Inl e \<Rightarrow> False)"
    by (simp add: state_defs run_defs string_defs process_home_automation_def
        process_scheduled_command_def match_time_at_def match_unit_def int_of_digits_def
        digit_value_def datetime_add_def timedelta_limit_def datetime_limit_def
        keyword_device_def sched_action_def str_nat.simps digit_char_def)
  have s0: "scheduled_tasks simulated_server = []" by (simp add: state_defs)
  from schedule_command_contract [of plain_platform "''schedule light turn on in 100000000 hours''"
      "''Alice''" simulated_server "''100000000''" "''hour''" 100000000 360000000000000 light On
      "''schedule light turn on in 100000000 hours''" 1 ValueError] a(7-11) b(3)
  have o':
    "process_home_automation plain_platform ''schedule light turn on in 100000000 hours'' ''Alice''
       simulated_server = Inl OverflowError"
    "snd (send_message plain_platform ''schedule light turn on in 100000000 hours'' ''Alice'' 1
       simulated_server) = error_response ''Alice''"
    "scheduled_tasks (fst (send_message plain_platform ''schedule light turn on in 100000000 hours''
       ''Alice'' 1 simulated_server)) = scheduled_tasks simulated_server"
    by blast+
  then have o:
    "process_home_automation plain_platform ''schedule light turn on in 100000000 hours'' ''Alice''
     simulated_server = Inl OverflowError"
    "snd (send_message plain_platform ''schedule light turn on in 100000000 hours'' ''Alice'' 1
     simulated_server) = error_response ''Alice''"
    "scheduled_tasks (fst (send_message plain_platform ''schedule light turn on in 100000000 hours''
     ''Alice'' 1 simulated_server)) = []"
    by (simp_all only: s0)
  have e: "py_lower plain_platform (''timer in '' @ replicate 4301 (CHR ''1'') @ '' hours'') =
      ''timer in '' @ replicate (Suc 4300) (CHR ''1'') @ '' hours''"
    by (simp add: plain_platform_def lower_def lower_char_def)
  have r: "re_search plain_platform = re_search_time" by (simp add: plain_platform_def)
  have x1: "contains ''timer''
     (py_lower plain_platform (''timer in '' @ replicate 4301 (CHR ''1'') @ '' hours''))"
    unfolding e by simp
  have x2: "re_search plain_platform
     (py_lower plain_platform (''timer in '' @ replicate 4301 (CHR ''1'') @ '' hours'')) =
     Some (replicate 4301 (CHR ''1''), ''hour'')"
    unfolding e r re_search_time_digit_run by (simp del: replicate_Suc)
  have x3: "py_int plain_platform (replicate 4301 (CHR ''1'')) = Inl ValueError"
    by (simp add: plain_platform_def ascii_int_def)
  from schedule_command_contract [of plain_platform
      "''timer in '' @ replicate 4301 (CHR ''1'') @ '' hours''" "''Alice''" simulated_server
      "replicate 4301 (CHR ''1'')" "''hour''" 0 0 light On "[]" 1 ValueError] x1 x2 x3
  have v:
    "process_home_automation plain_platform (''timer in '' @ replicate 4301 (CHR ''1'') @ '' hours'')
     ''Alice'' simulated_server = Inl ValueError"
    by blast
  from t n a b c o x1 x2 x3 v show ?thesis by blast
qed

theorem schedule_overflow_counterexample:
  "contains ''schedule'' (py_lower plain_platform ''schedule light turn on in 100000000 hours'') \<and>
   re_search plain_platform (py_lower plain_platform ''schedule light turn on in 100000000 hours'') =
     Some (''100000000'', ''hour'') \<and>
   py_int plain_platform ''100000000'' = Inr 100000000 \<and>
   keyword_device (py_lower plain_platform ''schedule light turn on in 100000000 hours'') = Some light \<and>
   sched_action (py_lower plain_platform ''schedule light turn on in 100000000 hours'') = Some On \<and>
   process_home_automation plain_platform ''schedule light turn on in 100000000 hours'' ''Alice''
     simulated_server = Inl OverflowError \<and>
   (case send_message plain_platform ''schedule light turn on in 100000000 hours'' ''Alice'' 1
           simulated_server of
      (s, reply) \<Rightarrow>
        scheduled_tasks s = [] \<and>
        reply = ''Sorry Alice, I encountered an error processing your request.'')"
  by (simp add: state_defs run_defs string_defs boundary_defs process_home_automation_def
      process_scheduled_command_def match_time_at_def match_unit_def int_of_digits_def
      digit_value_def datetime_add_def timedelta_limit_def datetime_limit_def
      keyword_device_def sched_action_def generate_response_def any_in_def)




end
